theory Spec2Isabelle
  imports Complex_Main "HOL-Library.AList" "HOL-Library.Char_ord" "HOL-Library.List_Lexorder"
    "HOL-Library.Product_Lexorder" "HOL-Library.Sublist"
begin

section \<open>Phase 9, neural networks: the training and scenario-scoring script\<close>

text \<open>
  A shallow embedding of \<^verbatim>\<open>scripts/09_redes_neuronales.py\<close>. The five functions of the
  script (\<^verbatim>\<open>construir_preprocesador\<close>, \<^verbatim>\<open>construir_modelo_clasificacion\<close>,
  \<^verbatim>\<open>entrenar_modelo_nn\<close>, \<^verbatim>\<open>construir_df_escenarios\<close>, \<^verbatim>\<open>predecir_escenarios\<close>) keep their
  names. The script calls pandas, scikit-learn, NumPy and Keras; the calls whose result is a
  function of their arguments are modelled after the documented behaviour of the library (each
  definition says which call it stands for), and what depends on random numbers, on learned
  weights or on the file system is read from a record of collaborators, \<open>env\<close>.
  Console output (\<^verbatim>\<open>print\<close>) is not modelled.
\<close>

subsection \<open>Values, exceptions, tables\<close>

text \<open>
  A table cell as pandas reads it from a CSV file or from a Python literal: a missing value
  (\<^verbatim>\<open>np.nan\<close>), a number, or a text. Numbers are real numbers here; the script only
  compares, sorts and copies them, except inside the scaler.
\<close>

datatype cell = NaN | Num real | Str string

text \<open>An entry of a NumPy float array (the transformed matrix, the predicted probabilities).\<close>

datatype npfloat = NaNf | Float real

text \<open>
  Exceptions, by class. The message of the \<^verbatim>\<open>ValueError\<close> that the script raises itself is
  modelled exactly; the messages of exceptions raised inside a library are abbreviated.
\<close>

datatype exn = ValueError string | KeyError string | TypeError string | IndexError string
  | OSError string

text \<open>
  A \<^verbatim>\<open>DataFrame\<close>: the column labels, and the rows as lists of cells in the order of the
  labels.
\<close>

record dataframe =
  df_columns :: "string list"
  df_rows :: "cell list list"

text \<open>\<^verbatim>\<open>row[c]\<close>: the cell of a row under the (first) column labelled \<open>c\<close>.\<close>

definition cell_at :: "string list \<Rightarrow> cell list \<Rightarrow> string \<Rightarrow> cell" where
  "cell_at cols r c = (case map_of (zip cols r) c of Some v \<Rightarrow> v | None \<Rightarrow> NaN)"

text \<open>\<^verbatim>\<open>df[c]\<close> as a list of values, for a label \<open>c\<close> of the table.\<close>

definition column_values :: "dataframe \<Rightarrow> string \<Rightarrow> cell list" where
  "column_values df c = map (\<lambda>r. cell_at (df_columns df) r c) (df_rows df)"

text \<open>
  \<^verbatim>\<open>df[cols]\<close> with a list of labels: the columns in the order asked for; pandas raises
  \<^verbatim>\<open>KeyError\<close> when a label is not a column.
\<close>

definition project :: "dataframe \<Rightarrow> string list \<Rightarrow> dataframe" where
  "project df cols =
     \<lparr>df_columns = cols,
      df_rows = map (\<lambda>r. map (cell_at (df_columns df) r) cols) (df_rows df)\<rparr>"

definition getitem_cols :: "dataframe \<Rightarrow> string list \<Rightarrow> exn + dataframe" where
  "getitem_cols df cols =
     (if list_all (\<lambda>c. c \<in> set (df_columns df)) cols then Inr (project df cols)
      else Inl (KeyError ''not in index''))"

text \<open>\<^verbatim>\<open>df.dropna(subset=cols)\<close>: the rows with no missing value under the labels \<open>cols\<close>.\<close>

definition dropna :: "dataframe \<Rightarrow> string list \<Rightarrow> dataframe" where
  "dropna df cols =
     df\<lparr>df_rows := filter (\<lambda>r. list_all (\<lambda>c. cell_at (df_columns df) r c \<noteq> NaN) cols)
                        (df_rows df)\<rparr>"

text \<open>\<^verbatim>\<open>df.drop(columns=[c])\<close>: every column labelled \<open>c\<close> is removed.\<close>

definition drop_column :: "dataframe \<Rightarrow> string \<Rightarrow> dataframe" where
  "drop_column df c =
     \<lparr>df_columns = filter (\<lambda>k. k \<noteq> c) (df_columns df),
      df_rows = map (\<lambda>r. map snd (filter (\<lambda>kv. fst kv \<noteq> c) (zip (df_columns df) r)))
                    (df_rows df)\<rparr>"

text \<open>
  \<^verbatim>\<open>df[c] = vs\<close>: an existing column labelled \<open>c\<close> is overwritten in place, a new label
  is appended as the last column.
\<close>

definition set_column :: "dataframe \<Rightarrow> string \<Rightarrow> cell list \<Rightarrow> dataframe" where
  "set_column df c vs =
     (if c \<in> set (df_columns df)
      then df\<lparr>df_rows :=
                map (\<lambda>(r, v). map (\<lambda>(k, x). if k = c then v else x) (zip (df_columns df) r))
                    (zip (df_rows df) vs)\<rparr>
      else \<lparr>df_columns = df_columns df @ [c],
            df_rows = map (\<lambda>(r, v). r @ [v]) (zip (df_rows df) vs)\<rparr>)"


text \<open>
  A Python \<^verbatim>\<open>dict\<close> is an association list in insertion order; \<^verbatim>\<open>d.get(k, default)\<close>,
  \<^verbatim>\<open>d[k] = v\<close> (\<^const>\<open>AList.update\<close>: in place for a key of the dict, at the end for a
  new one) and the comprehension \<^verbatim>\<open>{k: f(k) for k in ks}\<close>.
\<close>

definition dict_get :: "('k \<times> 'v) list \<Rightarrow> 'k \<Rightarrow> 'v \<Rightarrow> 'v" where
  "dict_get d k dflt = (case map_of d k of Some v \<Rightarrow> v | None \<Rightarrow> dflt)"

definition dict_comprehension :: "('k \<Rightarrow> 'v) \<Rightarrow> 'k list \<Rightarrow> ('k \<times> 'v) list" where
  "dict_comprehension f ks = foldl (\<lambda>d k. AList.update k (f k) d) [] ks"

text \<open>
  \<^verbatim>\<open>pd.DataFrame(rows)\<close> for a list of dicts: the columns are the keys in the order they
  first appear, a key that a dict lacks gives a missing value.
\<close>

definition first_seen :: "'a list \<Rightarrow> 'a list" where
  "first_seen xs = rev (remdups (rev xs))"

definition DataFrame :: "(string \<times> cell) list list \<Rightarrow> dataframe" where
  "DataFrame dicts =
     (let cols = first_seen (concat (map (map fst) dicts))
      in \<lparr>df_columns = cols, df_rows = map (\<lambda>d. map (\<lambda>c. dict_get d c NaN) cols) dicts\<rparr>)"

text \<open>\<^verbatim>\<open>', '.join(xs)\<close>.\<close>

fun join :: "string \<Rightarrow> string list \<Rightarrow> string" where
  "join sep [] = []"
| "join sep [x] = x"
| "join sep (x # y # ys) = x @ sep @ join sep (y # ys)"

text \<open>\<^verbatim>\<open>str(n)\<close> for a non-negative integer: its decimal digits.\<close>

fun str_nat :: "nat \<Rightarrow> string" where
  "str_nat n =
     (if n < 10 then [char_of (48 + n)] else str_nat (n div 10) @ [char_of (48 + n mod 10)])"

subsection \<open>Categories and codes of the target (lines 189 to 191)\<close>

text \<open>
  \<^verbatim>\<open>Series.astype("category")\<close>: the categories are the distinct values that are not
  missing, in ascending order: numbers by value, texts by code point, numbers before texts.
  \<open>cell_key\<close> is that order as a key.
\<close>

fun cell_key :: "cell \<Rightarrow> nat \<times> real \<times> string" where
  "cell_key (Num x) = (0, x, [])"
| "cell_key (Str s) = (1, 0, s)"
| "cell_key NaN = (2, 0, [])"

definition sorted_unique :: "cell list \<Rightarrow> cell list" where
  "sorted_unique vs = sort_key cell_key (remdups vs)"

definition categories :: "cell list \<Rightarrow> cell list" where
  "categories vs = sorted_unique (filter (\<lambda>v. v \<noteq> NaN) vs)"

fun index_of :: "'a \<Rightarrow> 'a list \<Rightarrow> nat option" where
  "index_of v [] = None"
| "index_of v (x # xs) =
     (if v = x then Some 0 else map_option Suc (index_of v xs))"

text \<open>\<^verbatim>\<open>.cat.codes\<close>: the position of the value among the categories, \<open>-1\<close> for a missing value.\<close>

definition cat_code :: "cell list \<Rightarrow> cell \<Rightarrow> int" where
  "cat_code cats v = (case index_of v cats of Some i \<Rightarrow> int i | None \<Rightarrow> - 1)"

subsection \<open>The classifier (lines 110 to 141)\<close>

datatype activation = Relu | Sigmoid | Softmax

datatype layer = Input nat string | Dense nat activation string | Dropout real string

record keras_model =
  km_name :: string
  km_layers :: "layer list"
  km_optimizer :: string
  km_loss :: string
  km_metrics :: "string list"

text \<open>
  The \<^verbatim>\<open>Sequential\<close> model as the script assembles and compiles it: what is handed to Keras.
\<close>

definition construir_modelo_clasificacion :: "nat \<Rightarrow> nat \<Rightarrow> string \<Rightarrow> keras_model" where
  "construir_modelo_clasificacion input_dim n_classes model_name =
     (let hidden = [Input input_dim ''input_layer'',
                    Dense 32 Relu ''dense_1'', Dropout (2 / 10) ''dropout_1'',
                    Dense 16 Relu ''dense_2'']
      in if n_classes = 2
         then \<lparr>km_name = model_name,
               km_layers = hidden @ [Dense 1 Sigmoid ''output''],
               km_optimizer = ''adam'', km_loss = ''binary_crossentropy'',
               km_metrics = [''accuracy'']\<rparr>
         else \<lparr>km_name = model_name,
               km_layers = hidden @ [Dense n_classes Softmax ''output''],
               km_optimizer = ''adam'', km_loss = ''sparse_categorical_crossentropy'',
               km_metrics = [''accuracy'']\<rparr>)"

text \<open>The width of what \<^verbatim>\<open>model.predict\<close> returns: the units of the last layer.\<close>

fun layer_units :: "layer \<Rightarrow> nat" where
  "layer_units (Input n s) = n"
| "layer_units (Dense n a s) = n"
| "layer_units (Dropout p s) = 0"

definition output_units :: "keras_model \<Rightarrow> nat" where
  "output_units m = (case rev (km_layers m) of [] \<Rightarrow> 0 | l # ls \<Rightarrow> layer_units l)"

text \<open>
  A trained model: its architecture and, for a transformed row, the value of each output unit.
\<close>

record trained_model =
  tm_architecture :: keras_model
  tm_forward :: "npfloat list \<Rightarrow> nat \<Rightarrow> npfloat"

text \<open>\<^verbatim>\<open>model.predict(X)\<close>: one row of \<open>output_units\<close> values per row of \<open>X\<close>.\<close>

definition predict :: "trained_model \<Rightarrow> npfloat list list \<Rightarrow> npfloat list list" where
  "predict m X = map (\<lambda>x. map (tm_forward m x) [0..<output_units (tm_architecture m)]) X"

subsection \<open>The preprocessor (lines 83 to 107)\<close>

text \<open>
  \<^verbatim>\<open>ColumnTransformer(transformers=[("num", ...), ("cat", ...)])\<close>: each transformer with the
  columns it is applied to. A \<^verbatim>\<open>Pipeline\<close> of one step is that step. The result of a
  \<^verbatim>\<open>ColumnTransformer\<close> is the outputs of its transformers side by side, in the order of the
  list; columns that no transformer names are dropped.
\<close>

datatype handle_unknown = Unknown_error | Unknown_ignore

datatype transformer = StandardScaler | OneHotEncoder handle_unknown

type_synonym column_transformer = "(string \<times> transformer \<times> string list) list"

definition construir_preprocesador :: "string list \<Rightarrow> string list \<Rightarrow> column_transformer" where
  "construir_preprocesador numeric_features categorical_features =
     [(''num'', StandardScaler, numeric_features),
      (''cat'', OneHotEncoder Unknown_ignore, categorical_features)]"

text \<open>
  What fitting learns for one input column: the mean and the scale of a scaled column (nothing
  when the column has no number to learn from), the categories of a one-hot column.
\<close>

datatype fitted_column = Scaler "(real \<times> real) option" | OneHot handle_unknown "cell list"

type_synonym fitted_preprocessor = "(string \<times> fitted_column) list"

definition is_text :: "cell \<Rightarrow> bool" where
  "is_text v = (case v of Str s \<Rightarrow> True | _ \<Rightarrow> False)"

definition is_number :: "cell \<Rightarrow> bool" where
  "is_number v = (case v of Num x \<Rightarrow> True | _ \<Rightarrow> False)"

definition numbers_of :: "cell list \<Rightarrow> real list" where
  "numbers_of vs = concat (map (\<lambda>v. case v of Num x \<Rightarrow> [x] | _ \<Rightarrow> []) vs)"

definition mean :: "real list \<Rightarrow> real" where
  "mean xs = sum_list xs / real (length xs)"

definition variance :: "real list \<Rightarrow> real" where
  "variance xs = sum_list (map (\<lambda>x. (x - mean xs)\<^sup>2) xs) / real (length xs)"

text \<open>
  \<^verbatim>\<open>StandardScaler\<close>: the scale is the standard deviation of the column (over its \<open>n\<close>
  values, not \<open>n - 1\<close>), and 1 for a constant column. Missing values are left out of the
  statistics and stay missing in the output.
  \<^verbatim>\<open>OneHotEncoder\<close>: the categories of a column are its distinct values in ascending order;
  a column that mixes numbers and texts is refused.
\<close>

definition scale_of :: "real list \<Rightarrow> real" where
  "scale_of xs = (if variance xs = 0 then 1 else sqrt (variance xs))"

definition scaler_params :: "cell list \<Rightarrow> (real \<times> real) option" where
  "scaler_params vs =
     (if numbers_of vs = [] then None
      else Some (mean (numbers_of vs), scale_of (numbers_of vs)))"

fun fit_column :: "transformer \<Rightarrow> cell list \<Rightarrow> exn + fitted_column" where
  "fit_column StandardScaler vs =
     (if list_ex is_text vs then Inl (ValueError ''could not convert string to float'')
      else Inr (Scaler (scaler_params vs)))"
| "fit_column (OneHotEncoder hu) vs =
     (if list_ex is_text vs \<and> list_ex is_number vs
      then Inl (TypeError ''input must be uniformly strings or numbers'')
      else Inr (OneHot hu (sorted_unique vs)))"

text \<open>
  The output of a fitted column for one cell: the standardised value, or the indicators of the
  categories (all zero for a value that is none of them).
\<close>

fun standardize :: "(real \<times> real) option \<Rightarrow> cell \<Rightarrow> npfloat" where
  "standardize (Some (m, s)) (Num x) = Float ((x - m) / s)"
| "standardize p v = NaNf"

fun cell_output :: "fitted_column \<Rightarrow> cell \<Rightarrow> npfloat list" where
  "cell_output (Scaler p) v = [standardize p v]"
| "cell_output (OneHot hu cats) v = map (\<lambda>u. Float (if u = v then 1 else 0)) cats"

text \<open>
  A text in a scaled column cannot be converted; a value that is none of the categories is an
  error only under \<^verbatim>\<open>handle_unknown="error"\<close>.
\<close>

fun transform_cell :: "fitted_column \<Rightarrow> cell \<Rightarrow> exn + npfloat list" where
  "transform_cell (Scaler p) v =
     (if is_text v then Inl (ValueError ''could not convert string to float'')
      else Inr (cell_output (Scaler p) v))"
| "transform_cell (OneHot hu cats) v =
     (if v \<notin> set cats \<and> hu = Unknown_error then Inl (ValueError ''Found unknown categories'')
      else Inr (cell_output (OneHot hu cats) v))"

text \<open>A loop that stops at the first exception.\<close>

fun traverse :: "('a \<Rightarrow> exn + 'b) \<Rightarrow> 'a list \<Rightarrow> exn + 'b list" where
  "traverse f [] = Inr []"
| "traverse f (x # xs) =
     (case f x of
        Inl e \<Rightarrow> Inl e
      | Inr y \<Rightarrow> (case traverse f xs of Inl e \<Rightarrow> Inl e | Inr ys \<Rightarrow> Inr (y # ys)))"

text \<open>
  The output of a fitted column for a column of a table. pandas types a column by its cells:
  a column without a text (numbers and missing values only) is numeric, any other is an object
  column. \<^verbatim>\<open>OneHotEncoder.transform\<close> looks for missing values among the categories when the
  column is numeric (\<^verbatim>\<open>np.isnan\<close>), which raises \<^verbatim>\<open>TypeError\<close> when the categories are
  texts, whatever \<^verbatim>\<open>handle_unknown\<close> says.
\<close>

definition numeric_dtype :: "cell list \<Rightarrow> bool" where
  "numeric_dtype vs = list_all (\<lambda>v. \<not> is_text v) vs"

fun transform_column :: "fitted_column \<Rightarrow> cell list \<Rightarrow> exn + npfloat list list" where
  "transform_column (Scaler p) vs = traverse (transform_cell (Scaler p)) vs"
| "transform_column (OneHot hu cats) vs =
     (if numeric_dtype vs \<and> list_ex is_text cats
      then Inl (TypeError ''ufunc isnan not supported for the input types'')
      else traverse (transform_cell (OneHot hu cats)) vs)"

text \<open>The input columns of a \<^verbatim>\<open>ColumnTransformer\<close> in output order, each with its transformer.\<close>

definition feature_columns :: "column_transformer \<Rightarrow> (string \<times> transformer) list" where
  "feature_columns ct = concat (map (\<lambda>(name, t, cols). map (\<lambda>c. (c, t)) cols) ct)"

definition fit :: "column_transformer \<Rightarrow> dataframe \<Rightarrow> exn + fitted_preprocessor" where
  "fit ct X =
     (if list_all (\<lambda>(c, t). c \<in> set (df_columns X)) (feature_columns ct)
      then traverse (\<lambda>(c, t). case fit_column t (column_values X c) of
                                 Inl e \<Rightarrow> Inl e | Inr fc \<Rightarrow> Inr (c, fc))
                    (feature_columns ct)
      else Inl (ValueError ''A given column is not a column of the dataframe''))"

text \<open>
  \<open>hstack n blocks\<close>: \<open>blocks\<close> holds, for each input column, its output for each of the
  \<open>n\<close> rows; the result holds, for each row, the outputs side by side.
\<close>

definition hstack :: "nat \<Rightarrow> npfloat list list list \<Rightarrow> npfloat list list" where
  "hstack n blocks = map (\<lambda>i. concat (map (\<lambda>b. b ! i) blocks)) [0..<n]"

definition transform :: "fitted_preprocessor \<Rightarrow> dataframe \<Rightarrow> exn + npfloat list list" where
  "transform fitted X =
     (if list_all (\<lambda>(c, fc). c \<in> set (df_columns X)) fitted
      then (case traverse (\<lambda>(c, fc). transform_column fc (column_values X c)) fitted of
              Inl e \<Rightarrow> Inl e
            | Inr blocks \<Rightarrow> Inr (hstack (length (df_rows X)) blocks))
      else Inl (ValueError ''columns are missing''))"

definition fit_transform ::
  "column_transformer \<Rightarrow> dataframe \<Rightarrow> exn + (fitted_preprocessor \<times> npfloat list list)" where
  "fit_transform ct X =
     (case fit ct X of
        Inl e \<Rightarrow> Inl e
      | Inr fitted \<Rightarrow> (case transform fitted X of Inl e \<Rightarrow> Inl e | Inr M \<Rightarrow> Inr (fitted, M)))"

text \<open>The number of output columns (\<^verbatim>\<open>X_train_proc.shape[1]\<close>).\<close>

fun width_of :: "fitted_column \<Rightarrow> nat" where
  "width_of (Scaler p) = 1"
| "width_of (OneHot hu cats) = length cats"

definition output_width :: "fitted_preprocessor \<Rightarrow> nat" where
  "output_width fitted = sum_list (map (\<lambda>(c, fc). width_of fc) fitted)"

subsection \<open>Effects: library calls, artifacts, collaborators\<close>

text \<open>
  A run yields the events it caused, in order, and its result or the exception that ended it.
  A call event is recorded when the script makes the call; a file event (\<open>SaveFig\<close>,
  \<open>ModelSave\<close>, \<open>ToCsv\<close>) is recorded when the file has been written.
\<close>

datatype event = Dropna | TrainTestSplit | FitTransform | Transform | ModelFit | ModelEvaluate
  | Predict | SaveFig string | ModelSave string | ToCsv string dataframe

type_synonym 'a io = "event list \<times> (exn + 'a)"

definition io_return :: "'a \<Rightarrow> 'a io" where
  "io_return x = ([], Inr x)"

definition io_bind :: "'a io \<Rightarrow> ('a \<Rightarrow> 'b io) \<Rightarrow> 'b io" where
  "io_bind m f =
     (case snd m of
        Inl e \<Rightarrow> (fst m, Inl e)
      | Inr x \<Rightarrow> (fst m @ fst (f x), snd (f x)))"

definition call :: "event \<Rightarrow> exn + 'a \<Rightarrow> 'a io" where
  "call ev r = ([ev], r)"

definition raise_or :: "exn + 'a \<Rightarrow> 'a io" where
  "raise_or r = ([], r)"

definition write_file :: "exn option \<Rightarrow> event \<Rightarrow> unit io" where
  "write_file outcome ev = (case outcome of None \<Rightarrow> ([ev], Inr ()) | Some e \<Rightarrow> ([], Inl e))"

text \<open>The files a run has written, in order.\<close>

fun artifact_of :: "event \<Rightarrow> string list" where
  "artifact_of (SaveFig p) = [p]"
| "artifact_of (ModelSave p) = [p]"
| "artifact_of (ToCsv p t) = [p]"
| "artifact_of ev = []"

definition artifacts :: "event list \<Rightarrow> string list" where
  "artifacts evs = concat (map artifact_of evs)"

text \<open>
  The collaborators: the seeded shuffle inside \<^verbatim>\<open>train_test_split\<close> (the row positions of the
  two parts), Keras' \<^verbatim>\<open>fit\<close> (the learned function, or an exception) and \<^verbatim>\<open>evaluate\<close>
  (loss and accuracy), the file system (for a path, whether writing it fails), and Python's
  formatting of a number inside an f-string.
\<close>

record env =
  env_shuffle_split :: "int list \<Rightarrow> nat \<Rightarrow> nat \<Rightarrow> nat list \<times> nat list"
  env_model_fit ::
    "keras_model \<Rightarrow> npfloat list list \<Rightarrow> int list \<Rightarrow> nat \<Rightarrow> nat \<Rightarrow> exn + (npfloat list \<Rightarrow> nat \<Rightarrow> npfloat)"
  env_model_evaluate :: "trained_model \<Rightarrow> npfloat list list \<Rightarrow> int list \<Rightarrow> exn + (npfloat \<times> npfloat)"
  env_write :: "string \<Rightarrow> exn option"
  env_format :: "real \<Rightarrow> string"

definition DIR_REPORTS :: string where
  "DIR_REPORTS = ''reports/redes_neuronales''"

definition path_join :: "string \<Rightarrow> string \<Rightarrow> string" where
  "path_join d f = d @ ''/'' @ f"

subsection \<open>Training (lines 144 to 296)\<close>

text \<open>The local variables of \<^verbatim>\<open>entrenar_modelo_nn\<close> up to the split, under their names.\<close>

definition cols_necesarias :: "string \<Rightarrow> string list \<Rightarrow> string list" where
  "cols_necesarias target_col predictors = target_col # predictors"

definition faltantes :: "dataframe \<Rightarrow> string \<Rightarrow> string list \<Rightarrow> string list" where
  "faltantes df target_col predictors =
     filter (\<lambda>c. c \<notin> set (df_columns df)) (cols_necesarias target_col predictors)"

definition data_sub :: "dataframe \<Rightarrow> string \<Rightarrow> string list \<Rightarrow> dataframe" where
  "data_sub df target_col predictors =
     dropna (project df (cols_necesarias target_col predictors))
            (cols_necesarias target_col predictors)"

definition y_cat :: "dataframe \<Rightarrow> string \<Rightarrow> string list \<Rightarrow> cell list" where
  "y_cat df target_col predictors = column_values (data_sub df target_col predictors) target_col"

definition class_mapping_of :: "cell list \<Rightarrow> (nat \<times> cell) list" where
  "class_mapping_of ys = enumerate 0 (categories ys)"

definition codes_of :: "cell list \<Rightarrow> int list" where
  "codes_of ys = map (cat_code (categories ys)) ys"

text \<open>
  \<^verbatim>\<open>train_test_split(X, y, test_size=0.3, random_state=1234, stratify=y)\<close>. The test part has
  \<open>\<lceil>0.3 n\<rceil>\<close> rows. scikit-learn raises \<^verbatim>\<open>ValueError\<close> when the training part would be
  empty, when a class has fewer than two members, and when a part has fewer rows than there
  are classes; otherwise the rows are dealt out by the seeded shuffle. (\<open>iloc\<close> selects rows
  by position; a shuffle yields positions of the table only, others would be skipped.)
\<close>

definition iloc :: "'a list \<Rightarrow> nat list \<Rightarrow> 'a list" where
  "iloc xs idx = map (\<lambda>i. xs ! i) (filter (\<lambda>i. i < length xs) idx)"

definition train_test_split ::
  "env \<Rightarrow> dataframe \<Rightarrow> int list \<Rightarrow> exn + (dataframe \<times> dataframe \<times> int list \<times> int list)" where
  "train_test_split e X y =
     (let n = length y;
          n_test = (3 * n + 9) div 10;
          n_train = n - n_test;
          classes = remdups y
      in if n_train = 0 then Inl (ValueError ''the resulting train set will be empty'')
         else if list_ex (\<lambda>c. count_list y c < 2) classes
         then Inl (ValueError ''The least populated class in y has too few members'')
         else if n_train < length classes
         then Inl (ValueError ''The train_size should be greater or equal to the number of classes'')
         else if n_test < length classes
         then Inl (ValueError ''The test_size should be greater or equal to the number of classes'')
         else (case env_shuffle_split e y n_train n_test of
                 (train, test) \<Rightarrow>
                   Inr (X\<lparr>df_rows := iloc (df_rows X) train\<rparr>, X\<lparr>df_rows := iloc (df_rows X) test\<rparr>,
                        iloc y train, iloc y test)))"

text \<open>The dict that \<^verbatim>\<open>entrenar_modelo_nn\<close> returns.\<close>

record info_modelo =
  im_model :: trained_model
  im_preprocessor :: fitted_preprocessor
  im_X_train :: dataframe
  im_X_test :: dataframe
  im_y_train :: "int list"
  im_y_test :: "int list"
  im_class_mapping :: "(nat \<times> cell) list"
  im_test_accuracy :: npfloat

text \<open>
  The parameter \<open>dir_reports\<close> is not read by the function: the three files go to the global
  \<open>DIR_REPORTS\<close>.
\<close>

definition entrenar_modelo_nn ::
  "env \<Rightarrow> dataframe \<Rightarrow> string \<Rightarrow> string list \<Rightarrow> string list \<Rightarrow> string list \<Rightarrow> string \<Rightarrow> string
   \<Rightarrow> nat \<Rightarrow> nat \<Rightarrow> info_modelo io" where
  "entrenar_modelo_nn e df target_col predictors numeric_features categorical_features model_id
     dir_reports epochs batch_size =
     (if faltantes df target_col predictors \<noteq> []
      then raise_or (Inl (ValueError
             (''Las siguientes columnas requeridas no existen en el dataset: ''
              @ join '', '' (faltantes df target_col predictors))))
      else
        io_bind (call Dropna (Inr (data_sub df target_col predictors))) (\<lambda>ds.
        let ys = column_values ds target_col;
            class_mapping = class_mapping_of ys;
            y = codes_of ys;
            X = project ds predictors
        in
        io_bind (call TrainTestSplit (train_test_split e X y)) (\<lambda>(X_train, X_test, y_train, y_test).
        io_bind (call FitTransform
                   (fit_transform (construir_preprocesador numeric_features categorical_features)
                      X_train)) (\<lambda>(preprocessor, X_train_proc).
        io_bind (call Transform (transform preprocessor X_test)) (\<lambda>X_test_proc.
        let input_dim = output_width preprocessor;
            n_classes = length (remdups y_train);
            model = construir_modelo_clasificacion input_dim n_classes model_id
        in
        io_bind (call ModelFit (env_model_fit e model X_train_proc y_train epochs batch_size))
          (\<lambda>forward.
        let trained = \<lparr>tm_architecture = model, tm_forward = forward\<rparr> in
        io_bind (call ModelEvaluate (env_model_evaluate e trained X_test_proc y_test))
          (\<lambda>(test_loss, test_acc).
        let ruta_acc = path_join DIR_REPORTS (model_id @ ''_accuracy.png'');
            ruta_loss = path_join DIR_REPORTS (model_id @ ''_loss.png'');
            ruta_model = path_join DIR_REPORTS (model_id @ ''_model.keras'')
        in
        io_bind (write_file (env_write e ruta_acc) (SaveFig ruta_acc)) (\<lambda>u1.
        io_bind (write_file (env_write e ruta_loss) (SaveFig ruta_loss)) (\<lambda>u2.
        io_bind (write_file (env_write e ruta_model) (ModelSave ruta_model)) (\<lambda>u3.
        io_return \<lparr>im_model = trained, im_preprocessor = preprocessor,
                   im_X_train = X_train, im_X_test = X_test,
                   im_y_train = y_train, im_y_test = y_test,
                   im_class_mapping = class_mapping, im_test_accuracy = test_acc\<rparr>))))))))))"

subsection \<open>Scenarios (lines 299 to 379)\<close>

type_synonym escenarios = "(string \<times> (string \<times> cell) list) list"

definition fila_escenario :: "string list \<Rightarrow> string \<Rightarrow> (string \<times> cell) list \<Rightarrow> (string \<times> cell) list" where
  "fila_escenario predictors nombre_esc valores =
     AList.update ''escenario'' (Str nombre_esc)
       (dict_comprehension (\<lambda>p. dict_get valores p NaN) predictors)"

definition construir_df_escenarios :: "string list \<Rightarrow> escenarios \<Rightarrow> exn + dataframe" where
  "construir_df_escenarios predictors escenarios_dict =
     (let rows = map (\<lambda>(nombre_esc, valores). fila_escenario predictors nombre_esc valores)
                     escenarios_dict;
          df_esc = DataFrame rows;
          cols = ''escenario'' # predictors
      in getitem_cols df_esc cols)"

text \<open>
  \<^verbatim>\<open>np.argmax\<close> along a row: the first position of the largest entry; a missing entry counts
  as the largest.
\<close>

fun argmax_from :: "nat \<Rightarrow> npfloat \<Rightarrow> nat \<Rightarrow> npfloat list \<Rightarrow> nat" where
  "argmax_from bi b i [] = bi"
| "argmax_from bi NaNf i (x # xs) = bi"
| "argmax_from bi (Float b) i (NaNf # xs) = i"
| "argmax_from bi (Float b) i (Float x # xs) =
     (if b < x then argmax_from i (Float x) (Suc i) xs
      else argmax_from bi (Float b) (Suc i) xs)"

fun argmax :: "npfloat list \<Rightarrow> nat" where
  "argmax [] = 0"
| "argmax (x # xs) = argmax_from 0 x 1 xs"

text \<open>\<^verbatim>\<open>y_proba[i, j]\<close>, \<^verbatim>\<open>p >= 0.5\<close>, and a float as a table cell.\<close>

definition entry :: "npfloat list \<Rightarrow> nat \<Rightarrow> npfloat" where
  "entry r j = (if j < length r then r ! j else NaNf)"

fun ge_half :: "npfloat \<Rightarrow> bool" where
  "ge_half NaNf = False"
| "ge_half (Float p) = (1 / 2 \<le> p)"

fun cell_of_float :: "npfloat \<Rightarrow> cell" where
  "cell_of_float NaNf = NaN"
| "cell_of_float (Float x) = Num x"

text \<open>\<^verbatim>\<open>class_mapping.get(c, str(c))\<close> and \<^verbatim>\<open>f"prob_{cat}"\<close>.\<close>

definition decode_label :: "(nat \<times> cell) list \<Rightarrow> nat \<Rightarrow> cell" where
  "decode_label class_mapping c = dict_get class_mapping c (Str (str_nat c))"

fun prob_column_name :: "(real \<Rightarrow> string) \<Rightarrow> cell \<Rightarrow> string" where
  "prob_column_name fmt (Str s) = ''prob_'' @ s"
| "prob_column_name fmt (Num x) = ''prob_'' @ fmt x"
| "prob_column_name fmt NaN = ''prob_nan''"

text \<open>The loop of lines 370 to 372 over \<^verbatim>\<open>class_mapping.items()\<close>.\<close>

fun add_prob_columns ::
  "(real \<Rightarrow> string) \<Rightarrow> nat \<Rightarrow> npfloat list list \<Rightarrow> (nat \<times> cell) list \<Rightarrow> dataframe \<Rightarrow> exn + dataframe" where
  "add_prob_columns fmt shape1 y_proba [] df_out = Inr df_out"
| "add_prob_columns fmt shape1 y_proba ((idx, cat) # items) df_out =
     (if idx < shape1
      then add_prob_columns fmt shape1 y_proba items
             (set_column df_out (prob_column_name fmt cat)
                (map (\<lambda>r. cell_of_float (entry r idx)) y_proba))
      else Inl (IndexError ''index is out of bounds for axis 1''))"

text \<open>
  The variable \<open>y_pred_class\<close> of either branch (lines 347 and 362); \<open>shape1\<close> is
  \<^verbatim>\<open>y_proba.shape[1]\<close>.
\<close>

definition y_pred_class :: "nat \<Rightarrow> npfloat list list \<Rightarrow> nat list" where
  "y_pred_class shape1 y_proba =
     (if shape1 = 1 then map (\<lambda>r. if ge_half (entry r 0) then 1 else 0) y_proba
      else map argmax y_proba)"

text \<open>
  Lines 345 to 372: \<open>df_out\<close> from \<open>df_esc\<close> and the predicted probabilities. NumPy raises
  \<^verbatim>\<open>ValueError\<close> for the arg-max of rows of no entries.
\<close>

definition tabla_predicciones ::
  "(real \<Rightarrow> string) \<Rightarrow> (nat \<times> cell) list \<Rightarrow> dataframe \<Rightarrow> nat \<Rightarrow> npfloat list list \<Rightarrow> exn + dataframe" where
  "tabla_predicciones fmt class_mapping df_esc shape1 y_proba =
     (if shape1 = 1
      then
        (let y_pred_label = map (decode_label class_mapping) (y_pred_class shape1 y_proba);
             df_out = set_column df_esc ''clase_predicha_cod''
                        (map (\<lambda>c. Num (real c)) (y_pred_class shape1 y_proba));
             df_out = set_column df_out ''clase_predicha'' y_pred_label;
             df_out = set_column df_out ''prob_clase_positiva''
                        (map (\<lambda>r. cell_of_float (entry r 0)) y_proba)
         in Inr df_out)
      else if shape1 = 0 then Inl (ValueError ''attempt to get argmax of an empty sequence'')
      else
        (let y_pred_label = map (decode_label class_mapping) (y_pred_class shape1 y_proba);
             df_out = set_column df_esc ''clase_predicha_cod''
                        (map (\<lambda>c. Num (real c)) (y_pred_class shape1 y_proba));
             df_out = set_column df_out ''clase_predicha'' y_pred_label
         in add_prob_columns fmt shape1 y_proba class_mapping df_out))"

definition predecir_escenarios ::
  "env \<Rightarrow> info_modelo \<Rightarrow> string list \<Rightarrow> escenarios \<Rightarrow> string \<Rightarrow> string \<Rightarrow> unit io" where
  "predecir_escenarios e info predictors escenarios_dict model_id dir_reports =
     io_bind (raise_or (construir_df_escenarios predictors escenarios_dict)) (\<lambda>df_esc.
     let X_esc = drop_column df_esc ''escenario'' in
     io_bind (call Transform (transform (im_preprocessor info) X_esc)) (\<lambda>X_esc_proc.
     let model = im_model info;
         class_mapping = im_class_mapping info
     in
     io_bind (call Predict (Inr (predict model X_esc_proc))) (\<lambda>y_proba.
     io_bind (raise_or (tabla_predicciones (env_format e) class_mapping df_esc
                          (output_units (tm_architecture model)) y_proba)) (\<lambda>df_out.
     let ruta_csv = path_join dir_reports (model_id @ ''_predicciones_escenarios.csv'')
     in write_file (env_write e ruta_csv) (ToCsv ruta_csv df_out)))))"

text \<open>
  One model of the driver (lines 400 to 452, and the same for the other two): training, then
  the scenarios, with the same identifier and \<open>DIR_REPORTS\<close>.
\<close>

definition ejecutar_modelo ::
  "env \<Rightarrow> dataframe \<Rightarrow> string \<Rightarrow> string list \<Rightarrow> string list \<Rightarrow> string list \<Rightarrow> string \<Rightarrow> escenarios
   \<Rightarrow> unit io" where
  "ejecutar_modelo e df target_col predictors numeric_features categorical_features model_id
     escenarios_dict =
     io_bind (entrenar_modelo_nn e df target_col predictors numeric_features categorical_features
                model_id DIR_REPORTS 50 256) (\<lambda>info.
     predecir_escenarios e info predictors escenarios_dict model_id DIR_REPORTS)"

subsection \<open>An example run\<close>

text \<open>
  Collaborators under which nothing fails: the shuffle deals the first rows to the training
  part and the next ones to the test part, training yields the classifier that gives every
  output unit one half, every file can be written, and a number is formatted as a question
  mark.
\<close>

definition env_example :: env where
  "env_example =
     \<lparr>env_shuffle_split = (\<lambda>y n_train n_test. ([0..<n_train], [n_train..<n_train + n_test])),
      env_model_fit = (\<lambda>m X y epochs batch_size. Inr (\<lambda>x j. Float (1 / 2))),
      env_model_evaluate = (\<lambda>m X y. Inr (Float 0, Float 1)),
      env_write = (\<lambda>p. None),
      env_format = (\<lambda>x. ''?'')\<rparr>"

section \<open>Properties\<close>

subsection \<open>Tables\<close>









subsection \<open>Categories and codes\<close>


lemma set_sorted_unique: "set (sorted_unique vs) = set vs"
  by (simp add: sorted_unique_def)

lemma distinct_sorted_unique: "distinct (sorted_unique vs)"
  by (simp add: sorted_unique_def)

lemma sorted_sorted_unique: "sorted (map cell_key (sorted_unique vs))"
  by (simp add: sorted_unique_def)



lemma set_categories: "set (categories vs) = set vs - {NaN}"
  by (auto simp: categories_def set_sorted_unique)

lemma distinct_categories: "distinct (categories vs)"
  by (simp add: categories_def distinct_sorted_unique)


lemma index_of_Some:
  "v \<in> set xs \<Longrightarrow> \<exists>i. index_of v xs = Some i \<and> i < length xs \<and> xs ! i = v"
  by (induction xs) auto

lemma index_of_nth_distinct:
  "distinct xs \<Longrightarrow> i < length xs \<Longrightarrow> index_of (xs ! i) xs = Some i"
proof (induction xs arbitrary: i)
  case (Cons x xs)
  then show ?case by (cases i) auto
qed simp

lemma map_of_enumerate_nth:
  "k < length xs \<Longrightarrow> map_of (enumerate n xs) (n + k) = Some (xs ! k)"
proof (induction xs arbitrary: n k)
  case Nil
  then show ?case by simp
next
  case (Cons x xs)
  show ?case
  proof (cases k)
    case 0
    then show ?thesis by simp
  next
    case (Suc j)
    with Cons.prems have "j < length xs" by simp
    from Cons.IH[OF this, of "Suc n"] Suc show ?thesis by simp
  qed
qed

lemma decode_label_nth:
  "k < length (categories ys) \<Longrightarrow> decode_label (class_mapping_of ys) k = categories ys ! k"
  using map_of_enumerate_nth[of k "categories ys" 0]
  by (simp add: decode_label_def class_mapping_of_def dict_get_def)


lemma mem_categories: "v \<in> set ys \<Longrightarrow> v \<noteq> NaN \<Longrightarrow> v \<in> set (categories ys)"
  by (simp add: set_categories)


lemma cat_code_decode:
  assumes "v \<in> set (categories ys)"
  shows "\<exists>k. cat_code (categories ys) v = int k \<and> k < length (categories ys)
             \<and> decode_label (class_mapping_of ys) k = v"
proof -
  from index_of_Some[OF assms] obtain i where i: "index_of v (categories ys) = Some i"
    "i < length (categories ys)" "categories ys ! i = v" by auto
  have a: "cat_code (categories ys) v = int i" unfolding cat_code_def i(1) by simp
  have b: "decode_label (class_mapping_of ys) i = v"
    unfolding decode_label_nth[OF i(2)] by (rule i(3))
  show ?thesis by (rule exI[of _ i]) (simp only: a b i(2) simp_thms)
qed

subsection \<open>The classifier builder\<close>

text \<open>
  Claim C2. With two classes the builder ends the network in one unit with the logistic
  (sigmoid) activation and compiles it with the binary cross-entropy loss; with more than two
  classes it ends it in one unit per class with the softmax activation and compiles it with the
  sparse categorical cross-entropy loss, and the scorer, which sees an output of that width,
  takes the arg-max of each row as the predicted class.
\<close>

theorem classifier_head_by_class_count:
  "(n_classes = 2 \<longrightarrow>
      km_layers (construir_modelo_clasificacion input_dim n_classes model_name)
        = [Input input_dim ''input_layer'', Dense 32 Relu ''dense_1'',
           Dropout (2 / 10) ''dropout_1'', Dense 16 Relu ''dense_2'',
           Dense 1 Sigmoid ''output'']
      \<and> km_loss (construir_modelo_clasificacion input_dim n_classes model_name)
           = ''binary_crossentropy''
      \<and> output_units (construir_modelo_clasificacion input_dim n_classes model_name) = 1)
   \<and> (2 < n_classes \<longrightarrow>
      km_layers (construir_modelo_clasificacion input_dim n_classes model_name)
        = [Input input_dim ''input_layer'', Dense 32 Relu ''dense_1'',
           Dropout (2 / 10) ''dropout_1'', Dense 16 Relu ''dense_2'',
           Dense n_classes Softmax ''output'']
      \<and> km_loss (construir_modelo_clasificacion input_dim n_classes model_name)
           = ''sparse_categorical_crossentropy''
      \<and> output_units (construir_modelo_clasificacion input_dim n_classes model_name) = n_classes
      \<and> y_pred_class (output_units (construir_modelo_clasificacion input_dim n_classes model_name))
            y_proba = map argmax y_proba)"
  by (simp add: construir_modelo_clasificacion_def output_units_def y_pred_class_def)

text \<open>The builder at two and at three classes.\<close>

theorem classifier_head_by_class_count_witness:
  "km_layers (construir_modelo_clasificacion 7 2 ''nn3'')
     = [Input 7 ''input_layer'', Dense 32 Relu ''dense_1'', Dropout (2 / 10) ''dropout_1'',
        Dense 16 Relu ''dense_2'', Dense 1 Sigmoid ''output'']
   \<and> km_loss (construir_modelo_clasificacion 7 2 ''nn3'') = ''binary_crossentropy''
   \<and> km_layers (construir_modelo_clasificacion 7 3 ''nn1'')
     = [Input 7 ''input_layer'', Dense 32 Relu ''dense_1'', Dropout (2 / 10) ''dropout_1'',
        Dense 16 Relu ''dense_2'', Dense 3 Softmax ''output'']
   \<and> km_loss (construir_modelo_clasificacion 7 3 ''nn1'') = ''sparse_categorical_crossentropy''
   \<and> y_pred_class (output_units (construir_modelo_clasificacion 7 3 ''nn1''))
        [[Float (1 / 10), Float (7 / 10), Float (2 / 10)]] = [1]"
  using classifier_head_by_class_count [of 2 7 "''nn3''" "[]"]
        classifier_head_by_class_count [of 3 7 "''nn1''" "[[Float (1 / 10), Float (7 / 10), Float (2 / 10)]]"]
  by auto

subsection \<open>Training: missing columns\<close>

lemma join_names:
  "c \<in> set xs \<Longrightarrow> \<exists>a b. join sep xs = a @ c @ b"
proof (induction sep xs rule: join.induct)
  case (1 sep)
  then show ?case by simp
next
  case (2 sep x)
  then have "join sep [x] = [] @ c @ []" by simp
  then show ?case by blast
next
  case (3 sep x y ys)
  show ?case
  proof (cases "c = x")
    case True
    then have "join sep (x # y # ys) = [] @ c @ (sep @ join sep (y # ys))" by simp
    then show ?thesis by blast
  next
    case False
    with 3 obtain a b where "join sep (y # ys) = a @ c @ b" by auto
    then have "join sep (x # y # ys) = (x @ sep @ a) @ c @ b" by simp
    then show ?thesis by blast
  qed
qed

text \<open>
  Claim C7. When a configured target or predictor column is absent from the dataset, training
  ends with the \<^verbatim>\<open>ValueError\<close> whose message lists the absent columns (all of them, in the
  order target, predictors, separated by a comma and a space), and it ends before the first
  library call: no row is filtered, nothing is split or fitted, no file is written.
\<close>

theorem missing_columns_abort:
  assumes "\<exists>c \<in> set (target_col # predictors). c \<notin> set (df_columns df)"
  shows "entrenar_modelo_nn e df target_col predictors numeric_features categorical_features
           model_id dir_reports epochs batch_size
         = ([], Inl (ValueError (''Las siguientes columnas requeridas no existen en el dataset: ''
                                 @ join '', '' (faltantes df target_col predictors))))
         \<and> faltantes df target_col predictors
             = filter (\<lambda>c. c \<notin> set (df_columns df)) (target_col # predictors)
         \<and> (\<forall>c \<in> set (target_col # predictors). c \<notin> set (df_columns df) \<longrightarrow>
               (\<exists>a b. join '', '' (faltantes df target_col predictors) = a @ c @ b))"
proof -
  have f: "faltantes df target_col predictors
           = filter (\<lambda>c. c \<notin> set (df_columns df)) (target_col # predictors)"
    by (simp add: faltantes_def cols_necesarias_def)
  from assms have ne: "faltantes df target_col predictors \<noteq> []"
    unfolding f by (simp add: filter_empty_conv)
  have run: "entrenar_modelo_nn e df target_col predictors numeric_features categorical_features
           model_id dir_reports epochs batch_size
         = ([], Inl (ValueError (''Las siguientes columnas requeridas no existen en el dataset: ''
                                 @ join '', '' (faltantes df target_col predictors))))"
    unfolding entrenar_modelo_nn_def using ne by (simp add: raise_or_def)
  have names: "\<exists>a b. join '', '' (faltantes df target_col predictors) = a @ c @ b"
    if "c \<in> set (target_col # predictors)" "c \<notin> set (df_columns df)" for c
  proof (rule join_names)
    show "c \<in> set (faltantes df target_col predictors)" unfolding f using that by auto
  qed
  from run f names show ?thesis by blast
qed

text \<open>A dataset that lacks the target and one of two predictors.\<close>

theorem missing_columns_abort_witness:
  "entrenar_modelo_nn env_example
     \<lparr>df_columns = [''AREA'', ''n_personas''], df_rows = [[Str ''urbana'', Num 3]]\<rparr>
     ''n_emigrantes_cat'' [''AREA'', ''cluster_k4''] [] [''AREA'', ''cluster_k4''] ''nn2''
     ''reports'' 50 256
   = ([], Inl (ValueError
        ''Las siguientes columnas requeridas no existen en el dataset: n_emigrantes_cat, cluster_k4''))"
  using missing_columns_abort [of "''n_emigrantes_cat''" "[''AREA'', ''cluster_k4'']"
    "\<lparr>df_columns = [''AREA'', ''n_personas''], df_rows = [[Str ''urbana'', Num 3]]\<rparr>"
    env_example "[]" "[''AREA'', ''cluster_k4'']" "''nn2''" "''reports''" 50 256]
  by (simp add: faltantes_def cols_necesarias_def)

subsection \<open>The label mapping\<close>

lemma y_cat_no_nan: "NaN \<notin> set (y_cat df target_col predictors)"
  by (auto simp: y_cat_def data_sub_def dropna_def project_def column_values_def
      cols_necesarias_def)

lemma length_categories: "NaN \<notin> set ys \<Longrightarrow> length (categories ys) = card (set ys)"
  using distinct_card[OF distinct_categories, of ys] by (simp add: set_categories)

lemma codes_round_trip:
  assumes "NaN \<notin> set ys"
  shows "map (\<lambda>c. decode_label (class_mapping_of ys) (nat c)) (codes_of ys) = ys"
proof -
  have "decode_label (class_mapping_of ys) (nat (cat_code (categories ys) v)) = v"
    if "v \<in> set ys" for v
  proof -
    from that assms have "v \<in> set (categories ys)" by (auto simp: set_categories)
    from cat_code_decode[OF this] obtain k where
      "cat_code (categories ys) v = int k" "decode_label (class_mapping_of ys) k = v" by blast
    then show ?thesis by simp
  qed
  then show ?thesis by (simp add: codes_of_def map_idI)
qed

lemma set_codes_of:
  assumes "NaN \<notin> set ys"
  shows "set (codes_of ys) = int ` {0..<card (set ys)}"
proof (rule set_eqI, rule iffI)
  fix c assume "c \<in> set (codes_of ys)"
  then obtain v where v: "v \<in> set ys" "c = cat_code (categories ys) v"
    by (auto simp: codes_of_def)
  from v(1) assms have "v \<in> set (categories ys)" by (auto simp: set_categories)
  from cat_code_decode[OF this] obtain k where
    "cat_code (categories ys) v = int k" "k < length (categories ys)" by blast
  then show "c \<in> int ` {0..<card (set ys)}"
    using v(2) length_categories[OF assms] by auto
next
  fix c assume "c \<in> int ` {0..<card (set ys)}"
  then obtain k where k: "c = int k" "k < length (categories ys)"
    using length_categories[OF assms] by auto
  let ?v = "categories ys ! k"
  have "?v \<in> set (categories ys)" using k(2) by simp
  then have mem: "?v \<in> set ys" by (simp add: set_categories)
  have "cat_code (categories ys) ?v = int k"
    using index_of_nth_distinct[OF distinct_categories k(2)] by (simp add: cat_code_def)
  then show "c \<in> set (codes_of ys)"
    using mem k(1) by (force simp: codes_of_def)
qed

lemma class_mapping_keys:
  "NaN \<notin> set ys \<Longrightarrow> map fst (class_mapping_of ys) = [0..<card (set ys)]"
  by (simp add: class_mapping_of_def length_categories)


text \<open>
  The target column of the filtered data (the rows left by \<^verbatim>\<open>dropna\<close>), its categories and
  its codes: every observed value has a code under which the enumeration of the categories
  holds that same value, and the codes are \<open>0, \<dots>, K - 1\<close> for \<open>K\<close> distinct values.
\<close>

lemma label_values_round_trip:
  "(\<forall>v \<in> set (y_cat df target_col predictors).
      \<exists>k. cat_code (categories (y_cat df target_col predictors)) v = int k
        \<and> decode_label (class_mapping_of (y_cat df target_col predictors)) k = v)
   \<and> map (\<lambda>c. decode_label (class_mapping_of (y_cat df target_col predictors)) (nat c))
         (codes_of (y_cat df target_col predictors))
       = y_cat df target_col predictors
   \<and> map fst (class_mapping_of (y_cat df target_col predictors))
       = [0..<card (set (y_cat df target_col predictors))]
   \<and> set (codes_of (y_cat df target_col predictors))
       = int ` {0..<card (set (y_cat df target_col predictors))}"
proof -
  let ?ys = "y_cat df target_col predictors"
  have nn: "NaN \<notin> set ?ys" by (rule y_cat_no_nan)
  have "\<exists>k. cat_code (categories ?ys) v = int k \<and> decode_label (class_mapping_of ?ys) k = v"
    if "v \<in> set ?ys" for v
  proof -
    from that nn have "v \<in> set (categories ?ys)" by (auto simp: set_categories)
    from cat_code_decode[OF this] show ?thesis by blast
  qed
  with codes_round_trip[OF nn] class_mapping_keys[OF nn] set_codes_of[OF nn]
  show ?thesis by blast
qed

text \<open>
  Six rows, two of them incomplete; the target has three values, coded in ascending order.
\<close>

lemma label_values_round_trip_example:
  "y_cat \<lparr>df_columns = [''agua'', ''nivel''],
          df_rows = [[Num 1, Str ''medium''], [Num 0, Str ''low''], [NaN, Str ''high''],
                     [Num 1, Str ''high''], [Num 0, NaN], [Num 1, Str ''low'']]\<rparr>
     ''nivel'' [''agua'']
   = [Str ''medium'', Str ''low'', Str ''high'', Str ''low'']
   \<and> codes_of [Str ''medium'', Str ''low'', Str ''high'', Str ''low''] = [2, 1, 0, 1]
   \<and> class_mapping_of [Str ''medium'', Str ''low'', Str ''high'', Str ''low'']
       = [(0, Str ''high''), (1, Str ''low''), (2, Str ''medium'')]
   \<and> map (\<lambda>c. decode_label [(0, Str ''high''), (1, Str ''low''), (2, Str ''medium'')] (nat c))
         [2, 1, 0, 1]
       = [Str ''medium'', Str ''low'', Str ''high'', Str ''low'']"
proof -
  have y: "y_cat \<lparr>df_columns = [''agua'', ''nivel''],
          df_rows = [[Num 1, Str ''medium''], [Num 0, Str ''low''], [NaN, Str ''high''],
                     [Num 1, Str ''high''], [Num 0, NaN], [Num 1, Str ''low'']]\<rparr>
     ''nivel'' [''agua'']
   = [Str ''medium'', Str ''low'', Str ''high'', Str ''low'']"
    by (simp add: y_cat_def data_sub_def dropna_def project_def column_values_def
        cols_necesarias_def cell_at_def)
  have c: "categories [Str ''medium'', Str ''low'', Str ''high'', Str ''low'']
           = [Str ''high'', Str ''low'', Str ''medium'']"
    by (simp add: categories_def sorted_unique_def)
  have k: "codes_of [Str ''medium'', Str ''low'', Str ''high'', Str ''low''] = [2, 1, 0, 1]"
    by (simp add: codes_of_def c cat_code_def)
  have m: "class_mapping_of [Str ''medium'', Str ''low'', Str ''high'', Str ''low'']
       = [(0, Str ''high''), (1, Str ''low''), (2, Str ''medium'')]"
    by (simp add: class_mapping_of_def c)
  from label_values_round_trip [of "\<lparr>df_columns = [''agua'', ''nivel''],
          df_rows = [[Num 1, Str ''medium''], [Num 0, Str ''low''], [NaN, Str ''high''],
                     [Num 1, Str ''high''], [Num 0, NaN], [Num 1, Str ''low'']]\<rparr>"
        "''nivel''" "[''agua'']"]
  have "map (\<lambda>c. decode_label (class_mapping_of [Str ''medium'', Str ''low'', Str ''high'', Str ''low'']) (nat c))
         (codes_of [Str ''medium'', Str ''low'', Str ''high'', Str ''low''])
       = [Str ''medium'', Str ''low'', Str ''high'', Str ''low'']"
    unfolding y by blast
  then show ?thesis unfolding k m using y k m by simp
qed

subsection \<open>Scoring the scenarios\<close>









subsection \<open>The scenario table\<close>

lemma map_of_foldl_update:
  "map_of (foldl (\<lambda>d k. AList.update k (f k) d) d0 ks) k
   = (if k \<in> set ks then Some (f k) else map_of d0 k)"
proof (induction ks arbitrary: d0)
  case Nil
  then show ?case by simp
next
  case (Cons a ks)
  show ?case by (simp add: Cons.IH update_conv')
qed

lemma map_of_dict_comprehension:
  "map_of (dict_comprehension f ks) k = (if k \<in> set ks then Some (f k) else None)"
  by (simp add: dict_comprehension_def map_of_foldl_update)

lemma foldl_update_cong:
  "(\<And>k. k \<in> set ks \<Longrightarrow> f k = g k) \<Longrightarrow>
   foldl (\<lambda>d k. AList.update k (f k) d) d0 ks = foldl (\<lambda>d k. AList.update k (g k) d) d0 ks"
  by (induction ks arbitrary: d0) simp_all

lemma dict_comprehension_cong:
  "(\<And>k. k \<in> set ks \<Longrightarrow> f k = g k) \<Longrightarrow> dict_comprehension f ks = dict_comprehension g ks"
  unfolding dict_comprehension_def by (rule foldl_update_cong)

lemma map_of_filter_keys:
  "map_of (filter (\<lambda>kv. fst kv \<in> A) xs) k = (if k \<in> A then map_of xs k else None)"
  by (induction xs) auto

lemma dict_get_filter_keys:
  "k \<in> A \<Longrightarrow> dict_get (filter (\<lambda>kv. fst kv \<in> A) xs) k d = dict_get xs k d"
  by (simp add: dict_get_def map_of_filter_keys)

lemma fila_escenario_restrict:
  "fila_escenario predictors nombre (filter (\<lambda>kv. fst kv \<in> set predictors) valores)
   = fila_escenario predictors nombre valores"
  unfolding fila_escenario_def
  by (rule arg_cong[where f = "AList.update ''escenario'' (Str nombre)"],
      rule dict_comprehension_cong) (simp add: dict_get_filter_keys)

lemma dict_get_fila:
  "dict_get (fila_escenario predictors nombre valores) c NaN
   = (if c = ''escenario'' then Str nombre
      else if c \<in> set predictors then dict_get valores c NaN else NaN)"
  by (simp add: dict_get_def fila_escenario_def update_conv' map_of_dict_comprehension)

lemma keys_fila:
  "set (map fst (fila_escenario predictors nombre valores)) = insert ''escenario'' (set predictors)"
proof -
  have "fst ` set (fila_escenario predictors nombre valores)
        = dom (map_of (fila_escenario predictors nombre valores))"
    by (simp add: dom_map_of_conv_image_fst)
  also have "\<dots> = insert ''escenario'' (set predictors)"
    by (auto simp: fila_escenario_def update_conv' map_of_dict_comprehension dom_def)
  finally show ?thesis by simp
qed

lemma set_first_seen: "set (first_seen xs) = set xs"
  by (simp add: first_seen_def)

lemma cell_at_map:
  "c \<in> set cols \<Longrightarrow> cell_at cols (map g cols) c = g c"
  by (simp add: cell_at_def map_of_zip_map)


lemma construir_df_escenarios_rows:
  assumes "escenarios_dict \<noteq> []"
  shows "construir_df_escenarios predictors escenarios_dict
         = Inr \<lparr>df_columns = ''escenario'' # predictors,
                df_rows = map (\<lambda>(nombre, valores).
                             Str nombre # map (\<lambda>p. if p = ''escenario'' then Str nombre
                                                    else dict_get valores p NaN) predictors)
                            escenarios_dict\<rparr>"
proof -
  let ?rows = "map (\<lambda>(nombre, valores). fila_escenario predictors nombre valores) escenarios_dict"
  let ?cols = "first_seen (concat (map (map fst) ?rows))"
  from assms obtain n v rest where e: "escenarios_dict = (n, v) # rest"
    by (cases escenarios_dict) auto
  have sub: "insert ''escenario'' (set predictors) \<subseteq> set ?cols"
    unfolding set_first_seen e using keys_fila[of predictors n v] by auto
  have cols: "list_all (\<lambda>c. c \<in> set ?cols) (''escenario'' # predictors)"
    using sub by (auto simp: list_all_iff)
  have cell: "map (cell_at ?cols (map (\<lambda>c. dict_get (fila_escenario predictors nombre valores) c NaN) ?cols))
                  (''escenario'' # predictors)
              = Str nombre # map (\<lambda>p. if p = ''escenario'' then Str nombre
                                          else dict_get valores p NaN) predictors"
    for nombre valores
    using sub by (auto simp: cell_at_map dict_get_fila)
  show ?thesis
    using cols cell
    by (simp add: construir_df_escenarios_def DataFrame_def getitem_cols_def project_def
        Let_def case_prod_unfold comp_def)
qed

lemma construir_df_escenarios_restrict:
  "construir_df_escenarios predictors
     (map (\<lambda>(nombre, valores). (nombre, filter (\<lambda>kv. fst kv \<in> set predictors) valores))
          escenarios_dict)
   = construir_df_escenarios predictors escenarios_dict"
  by (simp add: construir_df_escenarios_def comp_def case_prod_unfold fila_escenario_restrict)


text \<open>
  What \<^verbatim>\<open>construir_df_escenarios\<close> computes. A key of a scenario that is not a configured
  predictor is ignored: the assembled table, and with it the whole of
  \<^verbatim>\<open>predecir_escenarios\<close> (its events, its result or exception, the table it writes), is the
  same as for the scenarios without such keys. For at least one scenario the table has the
  column \<^verbatim>\<open>escenario\<close> followed by the predictors and one row per scenario in the order of
  the dict; the cell of a predictor holds the scenario's value, which is the missing value
  \<open>NaN\<close> when the scenario has no such key, except under a predictor named \<^verbatim>\<open>escenario\<close>.
\<close>

lemma scenario_table_assembly:
  "construir_df_escenarios predictors
     (map (\<lambda>(nombre, valores). (nombre, filter (\<lambda>kv. fst kv \<in> set predictors) valores))
          escenarios_dict)
   = construir_df_escenarios predictors escenarios_dict
   \<and> predecir_escenarios e info predictors
       (map (\<lambda>(nombre, valores). (nombre, filter (\<lambda>kv. fst kv \<in> set predictors) valores))
            escenarios_dict) model_id dir_reports
     = predecir_escenarios e info predictors escenarios_dict model_id dir_reports
   \<and> (escenarios_dict \<noteq> [] \<longrightarrow>
        construir_df_escenarios predictors escenarios_dict
        = Inr \<lparr>df_columns = ''escenario'' # predictors,
               df_rows = map (\<lambda>(nombre, valores).
                            Str nombre # map (\<lambda>p. if p = ''escenario'' then Str nombre
                                                   else dict_get valores p NaN) predictors)
                           escenarios_dict\<rparr>)
   \<and> (\<forall>p \<in> set predictors. \<forall>valores. p \<noteq> ''escenario'' \<longrightarrow> p \<notin> fst ` set valores \<longrightarrow>
        dict_get valores p NaN = NaN)"
proof -
  have a: "construir_df_escenarios predictors
     (map (\<lambda>(nombre, valores). (nombre, filter (\<lambda>kv. fst kv \<in> set predictors) valores))
          escenarios_dict)
   = construir_df_escenarios predictors escenarios_dict"
    by (rule construir_df_escenarios_restrict)
  have b: "predecir_escenarios e info predictors
       (map (\<lambda>(nombre, valores). (nombre, filter (\<lambda>kv. fst kv \<in> set predictors) valores))
            escenarios_dict) model_id dir_reports
     = predecir_escenarios e info predictors escenarios_dict model_id dir_reports"
    unfolding predecir_escenarios_def a ..
  have d: "dict_get valores p NaN = NaN" if "p \<notin> fst ` set valores" for p valores
  proof -
    from that have "map_of valores p = None" by (simp add: map_of_eq_None_iff)
    then show ?thesis by (simp add: dict_get_def)
  qed
  have c: "escenarios_dict \<noteq> [] \<longrightarrow>
        construir_df_escenarios predictors escenarios_dict
        = Inr \<lparr>df_columns = ''escenario'' # predictors,
               df_rows = map (\<lambda>(nombre, valores).
                            Str nombre # map (\<lambda>p. if p = ''escenario'' then Str nombre
                                                   else dict_get valores p NaN) predictors)
                           escenarios_dict\<rparr>"
    by (rule impI) (rule construir_df_escenarios_rows)
  have d': "\<forall>p \<in> set predictors. \<forall>valores. p \<noteq> ''escenario'' \<longrightarrow> p \<notin> fst ` set valores \<longrightarrow>
        dict_get valores p NaN = NaN"
    using d by (intro ballI allI impI)
  show ?thesis by (intro conjI) (rule a, rule b, rule c, rule d')
qed

text \<open>
  Claim C10 says that every configured predictor absent from a scenario is filled with the
  missing value \<open>NaN\<close>, and line 311 does fill it so. For the predictor list
  \<^verbatim>\<open>["escenario"]\<close> and the scenario \<^verbatim>\<open>{"esc_1": {}}\<close> the script does otherwise: line 312
  stores the name of the scenario under the same key and overwrites the \<open>NaN\<close>, so the
  assembled table holds the name of the scenario under the predictor.
\<close>

theorem escenario_predictor_overwritten:
  "construir_df_escenarios [''escenario''] [(''esc_1'', [])]
   = Inr \<lparr>df_columns = [''escenario'', ''escenario''],
          df_rows = [[Str ''esc_1'', Str ''esc_1'']]\<rparr>"
  by (simp add: construir_df_escenarios_def DataFrame_def getitem_cols_def project_def
      fila_escenario_def dict_comprehension_def first_seen_def dict_get_def cell_at_def)

text \<open>
  Two predictors and two scenarios: the first has a key that is no predictor and lacks one
  predictor.
\<close>

lemma scenario_table_assembly_example:
  "construir_df_escenarios [''AREA'', ''n_personas'']
     [(''esc_1'', [(''n_personas'', Num 3), (''altura'', Num 7)]),
      (''esc_2'', [(''AREA'', Str ''rural''), (''n_personas'', Num 8)])]
   = Inr \<lparr>df_columns = [''escenario'', ''AREA'', ''n_personas''],
          df_rows = [[Str ''esc_1'', NaN, Num 3], [Str ''esc_2'', Str ''rural'', Num 8]]\<rparr>
   \<and> construir_df_escenarios [''AREA'', ''n_personas'']
       [(''esc_1'', [(''n_personas'', Num 3)]),
        (''esc_2'', [(''AREA'', Str ''rural''), (''n_personas'', Num 8)])]
     = construir_df_escenarios [''AREA'', ''n_personas'']
       [(''esc_1'', [(''n_personas'', Num 3), (''altura'', Num 7)]),
        (''esc_2'', [(''AREA'', Str ''rural''), (''n_personas'', Num 8)])]"
proof -
  let ?esc = "[(''esc_1'', [(''n_personas'', Num 3), (''altura'', Num 7)]),
       (''esc_2'', [(''AREA'', Str ''rural''), (''n_personas'', Num 8)])]"
  note t = scenario_table_assembly [of "[''AREA'', ''n_personas'']" ?esc]
  from t have r: "construir_df_escenarios [''AREA'', ''n_personas'']
       (map (\<lambda>(nombre, valores).
               (nombre, filter (\<lambda>kv. fst kv \<in> set [''AREA'', ''n_personas'']) valores)) ?esc)
     = construir_df_escenarios [''AREA'', ''n_personas''] ?esc" by (rule conjunct1)
  from t[THEN conjunct2, THEN conjunct2, THEN conjunct1]
  have "?esc \<noteq> [] \<longrightarrow> construir_df_escenarios [''AREA'', ''n_personas''] ?esc
        = Inr \<lparr>df_columns = ''escenario'' # [''AREA'', ''n_personas''],
               df_rows = map (\<lambda>(nombre, valores).
                            Str nombre # map (\<lambda>p. if p = ''escenario'' then Str nombre
                                                   else dict_get valores p NaN)
                                             [''AREA'', ''n_personas''])
                           ?esc\<rparr>"
    .
  then have u: "construir_df_escenarios [''AREA'', ''n_personas''] ?esc
   = Inr \<lparr>df_columns = [''escenario'', ''AREA'', ''n_personas''],
          df_rows = [[Str ''esc_1'', NaN, Num 3], [Str ''esc_2'', Str ''rural'', Num 8]]\<rparr>"
    by (simp add: dict_get_def)
  from r have v: "construir_df_escenarios [''AREA'', ''n_personas'']
       [(''esc_1'', [(''n_personas'', Num 3)]),
        (''esc_2'', [(''AREA'', Str ''rural''), (''n_personas'', Num 8)])]
     = construir_df_escenarios [''AREA'', ''n_personas''] ?esc"
    by simp
  from u v show ?thesis by (intro conjI)
qed

subsection \<open>Training: a class too small to stratify\<close>

lemma count_list_map_inj:
  "inj_on f (insert v (set xs)) \<Longrightarrow> count_list (map f xs) (f v) = count_list xs v"
proof (induction xs)
  case Nil
  then show ?case by simp
next
  case (Cons a xs)
  from Cons.prems have i: "inj_on f (insert v (set xs))"
    by (rule inj_on_subset) auto
  from Cons.prems have "f a = f v \<longleftrightarrow> a = v"
    by (auto simp: inj_on_def)
  with Cons.IH[OF i] show ?case by simp
qed

lemma cat_code_inj:
  assumes "NaN \<notin> set ys"
  shows "inj_on (cat_code (categories ys)) (set ys)"
proof (rule inj_onI)
  fix a b assume a: "a \<in> set ys" and b: "b \<in> set ys"
    and eq: "cat_code (categories ys) a = cat_code (categories ys) b"
  from a assms have "a \<in> set (categories ys)" by (auto simp: set_categories)
  from cat_code_decode[OF this] obtain k where
    k: "cat_code (categories ys) a = int k" "decode_label (class_mapping_of ys) k = a" by blast
  from b assms have "b \<in> set (categories ys)" by (auto simp: set_categories)
  from cat_code_decode[OF this] obtain j where
    j: "cat_code (categories ys) b = int j" "decode_label (class_mapping_of ys) j = b" by blast
  from eq k(1) j(1) have "k = j" by simp
  with k(2) j(2) show "a = b" by simp
qed

lemma count_list_codes_of:
  assumes "NaN \<notin> set ys" "v \<in> set ys"
  shows "count_list (codes_of ys) (cat_code (categories ys) v) = count_list ys v"
proof -
  from assms(2) have "insert v (set ys) = set ys" by auto
  with cat_code_inj[OF assms(1)] have "inj_on (cat_code (categories ys)) (insert v (set ys))"
    by simp
  then show ?thesis unfolding codes_of_def by (rule count_list_map_inj)
qed

lemma train_test_split_too_few:
  assumes "c \<in> set y" "count_list y c < 2"
  shows "\<exists>msg. train_test_split e X y = Inl (ValueError msg)"
proof -
  from assms have "list_ex (\<lambda>c. count_list y c < 2) (remdups y)"
    by (auto simp: list_ex_iff)
  then show ?thesis
    by (simp add: train_test_split_def Let_def)
qed


text \<open>
  Claim C8. When all configured columns exist and some target value occurs fewer than twice in
  the filtered data (the least that the stratified split accepts), training ends with the
  \<^verbatim>\<open>ValueError\<close> of \<^verbatim>\<open>train_test_split\<close>: the exception is not caught, the class is not
  dropped, and nothing runs after the split (no fitting, no file).
\<close>

theorem too_few_members_propagates:
  assumes "faltantes df target_col predictors = []"
    and "\<exists>v \<in> set (y_cat df target_col predictors).
           count_list (y_cat df target_col predictors) v < 2"
  shows "\<exists>msg. entrenar_modelo_nn e df target_col predictors numeric_features
                 categorical_features model_id dir_reports epochs batch_size
               = ([Dropna, TrainTestSplit], Inl (ValueError msg))"
proof -
  let ?ys = "y_cat df target_col predictors"
  let ?X = "project (data_sub df target_col predictors) predictors"
  from assms(2) obtain v where v: "v \<in> set ?ys" "count_list ?ys v < 2" by blast
  have nn: "NaN \<notin> set ?ys" by (rule y_cat_no_nan)
  have c: "cat_code (categories ?ys) v \<in> set (codes_of ?ys)"
    using v(1) by (simp add: codes_of_def)
  have "count_list (codes_of ?ys) (cat_code (categories ?ys) v) < 2"
    using count_list_codes_of[OF nn v(1)] v(2) by simp
  from train_test_split_too_few[OF c this, of e ?X]
  obtain msg where "train_test_split e ?X (codes_of ?ys) = Inl (ValueError msg)" by blast
  then have "entrenar_modelo_nn e df target_col predictors numeric_features
                 categorical_features model_id dir_reports epochs batch_size
               = ([Dropna, TrainTestSplit], Inl (ValueError msg))"
    using assms(1)
    by (simp add: entrenar_modelo_nn_def io_bind_def call_def Let_def y_cat_def)
  then show ?thesis by blast
qed

text \<open>Three complete rows, one of them alone in its class.\<close>

theorem too_few_members_propagates_witness:
  "faltantes \<lparr>df_columns = [''nivel'', ''AREA''],
              df_rows = [[Str ''bajo'', Str ''rural''], [Str ''bajo'', Str ''urbana''],
                         [Str ''alto'', Str ''urbana'']]\<rparr> ''nivel'' [''AREA''] = []
   \<and> count_list (y_cat \<lparr>df_columns = [''nivel'', ''AREA''],
              df_rows = [[Str ''bajo'', Str ''rural''], [Str ''bajo'', Str ''urbana''],
                         [Str ''alto'', Str ''urbana'']]\<rparr> ''nivel'' [''AREA'']) (Str ''alto'') = 1
   \<and> entrenar_modelo_nn env_example \<lparr>df_columns = [''nivel'', ''AREA''],
              df_rows = [[Str ''bajo'', Str ''rural''], [Str ''bajo'', Str ''urbana''],
                         [Str ''alto'', Str ''urbana'']]\<rparr> ''nivel'' [''AREA''] [] [''AREA'']
          ''nn1'' ''reports'' 50 256
       = ([Dropna, TrainTestSplit],
          Inl (ValueError ''The least populated class in y has too few members''))"
proof -
  let ?df = "\<lparr>df_columns = [''nivel'', ''AREA''],
              df_rows = [[Str ''bajo'', Str ''rural''], [Str ''bajo'', Str ''urbana''],
                         [Str ''alto'', Str ''urbana'']]\<rparr>"
  have f: "faltantes ?df ''nivel'' [''AREA''] = []"
    by (simp add: faltantes_def cols_necesarias_def)
  have y: "y_cat ?df ''nivel'' [''AREA''] = [Str ''bajo'', Str ''bajo'', Str ''alto'']"
    by (simp add: y_cat_def data_sub_def dropna_def project_def column_values_def
        cols_necesarias_def cell_at_def)
  have h: "\<exists>v \<in> set (y_cat ?df ''nivel'' [''AREA'']).
             count_list (y_cat ?df ''nivel'' [''AREA'']) v < 2"
    unfolding y by simp
  from too_few_members_propagates [OF f h, of env_example "[]" "[''AREA'']" "''nn1''"
    "''reports''" 50 256]
  obtain msg where m: "entrenar_modelo_nn env_example ?df ''nivel'' [''AREA''] [] [''AREA'']
          ''nn1'' ''reports'' 50 256 = ([Dropna, TrainTestSplit], Inl (ValueError msg))"
    by blast
  have k: "codes_of [Str ''bajo'', Str ''bajo'', Str ''alto''] = [1, 1, 0]"
    by (simp add: codes_of_def categories_def sorted_unique_def cat_code_def)
  have "train_test_split env_example
          (project (data_sub ?df ''nivel'' [''AREA'']) [''AREA'']) [1, 1, 0]
        = Inl (ValueError ''The least populated class in y has too few members'')"
    by (simp add: train_test_split_def Let_def)
  then have "entrenar_modelo_nn env_example ?df ''nivel'' [''AREA''] [] [''AREA'']
          ''nn1'' ''reports'' 50 256
       = ([Dropna, TrainTestSplit],
          Inl (ValueError ''The least populated class in y has too few members''))"
    using f y k
    by (simp add: entrenar_modelo_nn_def io_bind_def call_def Let_def y_cat_def)
  with m f y show ?thesis by simp
qed

subsection \<open>The preprocessor\<close>

lemma traverse_map:
  "traverse f xs = Inr ys \<Longrightarrow> (\<And>x y. x \<in> set xs \<Longrightarrow> f x = Inr y \<Longrightarrow> y = g x)
   \<Longrightarrow> ys = map g xs"
proof (induction xs arbitrary: ys)
  case Nil
  then show ?case by simp
next
  case (Cons a xs)
  from Cons.prems(1) obtain y zs where y: "f a = Inr y" and zs: "traverse f xs = Inr zs"
    and ys: "ys = y # zs" by (auto split: sum.splits)
  have "zs = map g xs" using Cons.IH[OF zs] Cons.prems(2) by auto
  moreover have "y = g a" using Cons.prems(2)[of a y] y by simp
  ultimately show ?case using ys by simp
qed


lemma feature_columns_construir:
  "feature_columns (construir_preprocesador nums cats)
   = map (\<lambda>c. (c, StandardScaler)) nums @ map (\<lambda>c. (c, OneHotEncoder Unknown_ignore)) cats"
  by (simp add: feature_columns_def construir_preprocesador_def)

lemma fit_construir:
  assumes "fit (construir_preprocesador nums cats) X = Inr fitted"
  shows "fitted = map (\<lambda>c. (c, Scaler (scaler_params (column_values X c)))) nums
                @ map (\<lambda>c. (c, OneHot Unknown_ignore (sorted_unique (column_values X c)))) cats"
proof -
  let ?f = "\<lambda>(c, t). case fit_column t (column_values X c) of
                        Inl e \<Rightarrow> Inl e | Inr fc \<Rightarrow> Inr (c, fc)"
  let ?g = "\<lambda>(c, t). (c, case t of StandardScaler \<Rightarrow> Scaler (scaler_params (column_values X c))
                          | OneHotEncoder hu \<Rightarrow> OneHot hu (sorted_unique (column_values X c)))"
  from assms have t: "traverse ?f (feature_columns (construir_preprocesador nums cats)) = Inr fitted"
    by (auto simp: fit_def split: if_splits)
  have "fitted = map ?g (feature_columns (construir_preprocesador nums cats))"
  proof (rule traverse_map[OF t])
    fix x y assume "?f x = Inr y"
    then show "y = ?g x"
      by (cases x; cases "snd x")
         (auto split: sum.splits if_splits)
  qed
  then show ?thesis by (simp add: feature_columns_construir comp_def)
qed

lemma transform_cell_output: "transform_cell fc v = Inr y \<Longrightarrow> y = cell_output fc v"
  by (cases fc) (auto split: if_splits)

lemma transform_column_output:
  "transform_column fc vs = Inr y \<Longrightarrow> y = map (cell_output fc) vs"
proof (cases fc)
  case (Scaler p)
  assume "transform_column fc vs = Inr y"
  with Scaler have t: "traverse (transform_cell fc) vs = Inr y" by simp
  show ?thesis by (rule traverse_map[OF t]) (rule transform_cell_output)
next
  case (OneHot hu cats)
  assume "transform_column fc vs = Inr y"
  with OneHot have t: "traverse (transform_cell fc) vs = Inr y" by (simp split: if_splits)
  show ?thesis by (rule traverse_map[OF t]) (rule transform_cell_output)
qed

lemma transform_rows:
  assumes "transform fitted X = Inr M"
  shows "M = map (\<lambda>r. concat (map (\<lambda>(c, fc). cell_output fc (cell_at (df_columns X) r c)) fitted))
                 (df_rows X)"
proof -
  let ?n = "length (df_rows X)"
  let ?f = "\<lambda>(c, fc). transform_column fc (column_values X c)"
  let ?g = "\<lambda>(c, fc). map (cell_output fc) (column_values X c)"
  from assms obtain blocks where t: "traverse ?f fitted = Inr blocks"
    and M: "M = hstack ?n blocks"
    by (auto simp: transform_def split: if_splits sum.splits)
  have b: "blocks = map ?g fitted"
  proof (rule traverse_map[OF t])
    fix x y assume "?f x = Inr y"
    then obtain c fc where x: "x = (c, fc)"
      and y: "transform_column fc (column_values X c) = Inr y" by (cases x) auto
    have "y = map (cell_output fc) (column_values X c)"
      by (rule transform_column_output[OF y])
    then show "y = ?g x" using x by simp
  qed
  show ?thesis
  proof (rule nth_equalityI)
    show "length M = length (map (\<lambda>r. concat (map (\<lambda>(c, fc). cell_output fc (cell_at (df_columns X) r c)) fitted)) (df_rows X))"
      by (simp add: M hstack_def numeric_dtype_def is_text_def)
  next
    fix i assume "i < length M"
    then have i: "i < ?n" by (simp add: M hstack_def numeric_dtype_def is_text_def)
    have "M ! i = concat (map (\<lambda>b. b ! i) blocks)" using i by (simp add: M hstack_def numeric_dtype_def is_text_def)
    also have "\<dots> = concat (map (\<lambda>(c, fc). cell_output fc (cell_at (df_columns X) (df_rows X ! i) c)) fitted)"
      using i by (simp add: b comp_def case_prod_unfold column_values_def)
    finally show "M ! i = map (\<lambda>r. concat (map (\<lambda>(c, fc). cell_output fc (cell_at (df_columns X) r c)) fitted)) (df_rows X) ! i"
      using i by simp
  qed
qed

lemma fit_transform_rows:
  assumes "fit_transform (construir_preprocesador nums cats) X = Inr (fitted, M)"
  shows "M = map (\<lambda>r. map (\<lambda>c. standardize (scaler_params (column_values X c))
                                   (cell_at (df_columns X) r c)) nums
                      @ concat (map (\<lambda>c. map (\<lambda>u. Float (if u = cell_at (df_columns X) r c
                                                          then 1 else 0))
                                               (sorted_unique (column_values X c))) cats))
                 (df_rows X)"
proof -
  from assms have f: "fit (construir_preprocesador nums cats) X = Inr fitted"
    and t: "transform fitted X = Inr M"
    by (auto simp: fit_transform_def split: sum.splits)
  show ?thesis
    unfolding transform_rows[OF t] fit_construir[OF f]
    by (simp add: comp_def concat_map_singleton)
qed

text \<open>
  Claim C5, as the script behaves. In the matrix that \<^verbatim>\<open>fit_transform\<close> returns, each row
  holds first the standardised numeric columns, in the order of \<open>numeric_features\<close>, and then
  one block of indicators per categorical column, in the order of \<open>categorical_features\<close>;
  the block of a column has one indicator per distinct value of that column in the fitting
  rows, in ascending order of the values (not in the order in which the rows show them).
\<close>

theorem transformed_matrix_layout:
  assumes "fit_transform (construir_preprocesador numeric_features categorical_features) X
           = Inr (fitted, M)"
  shows "M = map (\<lambda>r. map (\<lambda>c. standardize (scaler_params (column_values X c))
                                   (cell_at (df_columns X) r c)) numeric_features
                      @ concat (map (\<lambda>c. map (\<lambda>u. Float (if u = cell_at (df_columns X) r c
                                                          then 1 else 0))
                                               (sorted_unique (column_values X c)))
                                    categorical_features))
                 (df_rows X)
    \<and> (\<forall>c \<in> set categorical_features.
          sorted (map cell_key (sorted_unique (column_values X c)))
        \<and> distinct (sorted_unique (column_values X c))
        \<and> set (sorted_unique (column_values X c)) = set (column_values X c))"
  using fit_transform_rows[OF assms]
  by (simp add: sorted_sorted_unique distinct_sorted_unique set_sorted_unique)

text \<open>
  Fitting on the rows "urbana", "rural" orders the block as rural, urbana, so the row of the
  value seen first has its indicator in the second place; the order of first appearance would be
  urbana, rural.
\<close>

theorem transformed_matrix_layout_counterexample:
  "fit_transform (construir_preprocesador [] [''AREA''])
     \<lparr>df_columns = [''AREA''], df_rows = [[Str ''urbana''], [Str ''rural'']]\<rparr>
   = Inr ([(''AREA'', OneHot Unknown_ignore [Str ''rural'', Str ''urbana''])],
          [[Float 0, Float 1], [Float 1, Float 0]])
   \<and> first_seen [Str ''urbana'', Str ''rural''] = [Str ''urbana'', Str ''rural'']"
  by (simp add: fit_transform_def fit_def transform_def feature_columns_def
      construir_preprocesador_def column_values_def cell_at_def is_text_def is_number_def
      sorted_unique_def hstack_def first_seen_def numeric_dtype_def)


text \<open>One numeric and one categorical column, two rows.\<close>

theorem transformed_matrix_layout_witness:
  "fit_transform (construir_preprocesador [''n_personas''] [''AREA''])
     \<lparr>df_columns = [''AREA'', ''n_personas''],
       df_rows = [[Str ''urbana'', Num 1], [Str ''rural'', Num 3]]\<rparr>
   = Inr ([(''n_personas'', Scaler (Some (2, 1))),
           (''AREA'', OneHot Unknown_ignore [Str ''rural'', Str ''urbana''])],
          [[Float (- 1), Float 0, Float 1], [Float 1, Float 1, Float 0]])
   \<and> [[Float (- 1), Float 0, Float 1], [Float 1, Float 1, Float 0]]
     = map (\<lambda>r. map (\<lambda>c. standardize (scaler_params [Num 1, Num 3])
                               (cell_at [''AREA'', ''n_personas''] r c)) [''n_personas'']
                  @ concat (map (\<lambda>c. map (\<lambda>u. Float (if u = cell_at [''AREA'', ''n_personas''] r c
                                                      then 1 else 0))
                                           [Str ''rural'', Str ''urbana'']) [''AREA'']))
           [[Str ''urbana'', Num 1], [Str ''rural'', Num 3]]"
proof -
  let ?X = "\<lparr>df_columns = [''AREA'', ''n_personas''],
       df_rows = [[Str ''urbana'', Num 1], [Str ''rural'', Num 3]]\<rparr>"
  have p: "scaler_params [Num 1, Num 3] = Some (2, 1)"
    by (simp add: scaler_params_def numbers_of_def mean_def scale_of_def variance_def
        power2_eq_square)
  have n: "column_values ?X ''n_personas'' = [Num 1, Num 3]"
    by (simp add: column_values_def cell_at_def)
  have a: "column_values ?X ''AREA'' = [Str ''urbana'', Str ''rural'']"
    by (simp add: column_values_def cell_at_def)
  have s: "sorted_unique [Str ''urbana'', Str ''rural''] = [Str ''rural'', Str ''urbana'']"
    by (simp add: sorted_unique_def)
  have e: "fit_transform (construir_preprocesador [''n_personas''] [''AREA'']) ?X
   = Inr ([(''n_personas'', Scaler (Some (2, 1))),
           (''AREA'', OneHot Unknown_ignore [Str ''rural'', Str ''urbana''])],
          [[Float (- 1), Float 0, Float 1], [Float 1, Float 1, Float 0]])"
    by (simp add: fit_transform_def fit_def transform_def feature_columns_def
        construir_preprocesador_def n a p s is_text_def is_number_def hstack_def numeric_dtype_def is_text_def)
  from transformed_matrix_layout[OF e, THEN conjunct1]
  have "[[Float (- 1), Float 0, Float 1], [Float 1, Float 1, Float 0]]
     = map (\<lambda>r. map (\<lambda>c. standardize (scaler_params (column_values ?X c))
                               (cell_at (df_columns ?X) r c)) [''n_personas'']
                  @ concat (map (\<lambda>c. map (\<lambda>u. Float (if u = cell_at (df_columns ?X) r c
                                                      then 1 else 0))
                                           (sorted_unique (column_values ?X c))) [''AREA'']))
           (df_rows ?X)" .
  then have c: "[[Float (- 1), Float 0, Float 1], [Float 1, Float 1, Float 0]]
     = map (\<lambda>r. map (\<lambda>c. standardize (scaler_params [Num 1, Num 3])
                               (cell_at [''AREA'', ''n_personas''] r c)) [''n_personas'']
                  @ concat (map (\<lambda>c. map (\<lambda>u. Float (if u = cell_at [''AREA'', ''n_personas''] r c
                                                      then 1 else 0))
                                           [Str ''rural'', Str ''urbana'']) [''AREA'']))
           [[Str ''urbana'', Num 1], [Str ''rural'', Num 3]]"
    by (simp add: n a s)
  from e c show ?thesis by (intro conjI)
qed








subsection \<open>The files of one model\<close>

lemma artifacts_append: "artifacts (xs @ ys) = artifacts xs @ artifacts ys"
  by (simp add: artifacts_def)

lemma artifacts_Cons: "artifacts (ev # evs) = artifact_of ev @ artifacts evs"
  by (simp add: artifacts_def)

lemma artifacts_Nil: "artifacts [] = []"
  by (simp add: artifacts_def)

lemma io_bind_call:
  "io_bind (call ev r) f
   = (case r of Inl e \<Rightarrow> ([ev], Inl e) | Inr x \<Rightarrow> (ev # fst (f x), snd (f x)))"
  by (simp add: io_bind_def call_def split: sum.splits)

lemma io_bind_write_file:
  "io_bind (write_file outcome ev) f
   = (case outcome of Some e \<Rightarrow> ([], Inl e) | None \<Rightarrow> (ev # fst (f ()), snd (f ())))"
  by (simp add: io_bind_def write_file_def split: option.splits)

lemma io_bind_raise_or:
  "io_bind (raise_or r) f = (case r of Inl e \<Rightarrow> ([], Inl e) | Inr x \<Rightarrow> f x)"
  by (simp add: io_bind_def raise_or_def split: sum.splits)

lemma entrenar_artifacts:
  "(artifacts (fst (entrenar_modelo_nn e df target_col predictors numeric_features
                      categorical_features model_id dir_reports epochs batch_size)),
    isl (snd (entrenar_modelo_nn e df target_col predictors numeric_features
                      categorical_features model_id dir_reports epochs batch_size)))
   \<in> {([], True),
       ([path_join DIR_REPORTS (model_id @ ''_accuracy.png'')], True),
       ([path_join DIR_REPORTS (model_id @ ''_accuracy.png''),
         path_join DIR_REPORTS (model_id @ ''_loss.png'')], True),
       ([path_join DIR_REPORTS (model_id @ ''_accuracy.png''),
         path_join DIR_REPORTS (model_id @ ''_loss.png''),
         path_join DIR_REPORTS (model_id @ ''_model.keras'')], False)}"
  unfolding entrenar_modelo_nn_def Let_def
  by (simp add: io_bind_call io_bind_write_file raise_or_def io_return_def
      artifacts_Cons artifacts_Nil split: sum.splits option.splits prod.splits)

lemma predecir_artifacts:
  "(artifacts (fst (predecir_escenarios e info predictors escenarios_dict model_id dir_reports)),
    isl (snd (predecir_escenarios e info predictors escenarios_dict model_id dir_reports)))
   \<in> {([], True),
       ([path_join dir_reports (model_id @ ''_predicciones_escenarios.csv'')], False)}"
  unfolding predecir_escenarios_def Let_def
  by (simp add: io_bind_call io_bind_raise_or write_file_def
      artifacts_Cons artifacts_Nil split: sum.splits option.splits prod.splits)


lemma artifacts_prefix:
  "prefix (artifacts (fst (ejecutar_modelo e df target_col predictors numeric_features
                             categorical_features model_id escenarios_dict)))
          [path_join DIR_REPORTS (model_id @ ''_accuracy.png''),
           path_join DIR_REPORTS (model_id @ ''_loss.png''),
           path_join DIR_REPORTS (model_id @ ''_model.keras''),
           path_join DIR_REPORTS (model_id @ ''_predicciones_escenarios.csv'')]
   \<and> (isl (snd (ejecutar_modelo e df target_col predictors numeric_features
                    categorical_features model_id escenarios_dict))
        \<longleftrightarrow> artifacts (fst (ejecutar_modelo e df target_col predictors numeric_features
                                  categorical_features model_id escenarios_dict))
            \<noteq> [path_join DIR_REPORTS (model_id @ ''_accuracy.png''),
               path_join DIR_REPORTS (model_id @ ''_loss.png''),
               path_join DIR_REPORTS (model_id @ ''_model.keras''),
               path_join DIR_REPORTS (model_id @ ''_predicciones_escenarios.csv'')])"
proof -
  let ?r1 = "entrenar_modelo_nn e df target_col predictors numeric_features
               categorical_features model_id DIR_REPORTS 50 256"
  let ?run = "ejecutar_modelo e df target_col predictors numeric_features
                categorical_features model_id escenarios_dict"
  note a1 = entrenar_artifacts[of e df target_col predictors numeric_features
               categorical_features model_id DIR_REPORTS 50 256]
  show ?thesis
  proof (cases "snd ?r1")
    case (Inl ex)
    then have run: "?run = (fst ?r1, Inl ex)"
      by (simp add: ejecutar_modelo_def io_bind_def)
    from a1 Inl show ?thesis unfolding run by (auto simp: prefix_def)
  next
    case (Inr info)
    let ?r2 = "predecir_escenarios e info predictors escenarios_dict model_id DIR_REPORTS"
    from Inr have run: "?run = (fst ?r1 @ fst ?r2, snd ?r2)"
      by (simp add: ejecutar_modelo_def io_bind_def)
    note a2 = predecir_artifacts[of e info predictors escenarios_dict model_id DIR_REPORTS]
    from a1 Inr a2 show ?thesis unfolding run
      by (auto simp: prefix_def artifacts_append)
  qed
qed

lemma io_bind_pair:
  "io_bind (evs, Inl ex) f = (evs, Inl ex)"
  "io_bind (evs, Inr x) f = (evs @ fst (f x), snd (f x))"
  by (simp_all add: io_bind_def)

lemma entrenar_events:
  "prefix (fst (entrenar_modelo_nn e df target_col predictors numeric_features
                  categorical_features model_id dir_reports epochs batch_size))
     [Dropna, TrainTestSplit, FitTransform, Transform, ModelFit, ModelEvaluate,
      SaveFig (path_join DIR_REPORTS (model_id @ ''_accuracy.png'')),
      SaveFig (path_join DIR_REPORTS (model_id @ ''_loss.png'')),
      ModelSave (path_join DIR_REPORTS (model_id @ ''_model.keras''))]
   \<and> (isl (snd (entrenar_modelo_nn e df target_col predictors numeric_features
                  categorical_features model_id dir_reports epochs batch_size))
       \<or> fst (entrenar_modelo_nn e df target_col predictors numeric_features
                  categorical_features model_id dir_reports epochs batch_size)
         = [Dropna, TrainTestSplit, FitTransform, Transform, ModelFit, ModelEvaluate,
            SaveFig (path_join DIR_REPORTS (model_id @ ''_accuracy.png'')),
            SaveFig (path_join DIR_REPORTS (model_id @ ''_loss.png'')),
            ModelSave (path_join DIR_REPORTS (model_id @ ''_model.keras''))])"
  unfolding entrenar_modelo_nn_def Let_def
  by (simp add: io_bind_call io_bind_write_file raise_or_def io_return_def
      split: sum.splits option.splits prod.splits)

lemma predecir_events:
  "\<exists>out. prefix (fst (predecir_escenarios e info predictors escenarios_dict model_id dir_reports))
     [Transform, Predict,
      ToCsv (path_join dir_reports (model_id @ ''_predicciones_escenarios.csv'')) out]"
  unfolding predecir_escenarios_def Let_def
  by (simp add: io_bind_call io_bind_raise_or write_file_def
      split: sum.splits option.splits prod.splits)


lemma ejecutar_events:
  "\<exists>out. prefix (fst (ejecutar_modelo e df target_col predictors numeric_features
                         categorical_features model_id escenarios_dict))
     [Dropna, TrainTestSplit, FitTransform, Transform, ModelFit, ModelEvaluate,
      SaveFig (path_join DIR_REPORTS (model_id @ ''_accuracy.png'')),
      SaveFig (path_join DIR_REPORTS (model_id @ ''_loss.png'')),
      ModelSave (path_join DIR_REPORTS (model_id @ ''_model.keras'')),
      Transform, Predict,
      ToCsv (path_join DIR_REPORTS (model_id @ ''_predicciones_escenarios.csv'')) out]"
proof -
  let ?r1 = "entrenar_modelo_nn e df target_col predictors numeric_features
               categorical_features model_id DIR_REPORTS 50 256"
  let ?nine = "[Dropna, TrainTestSplit, FitTransform, Transform, ModelFit, ModelEvaluate,
      SaveFig (path_join DIR_REPORTS (model_id @ ''_accuracy.png'')),
      SaveFig (path_join DIR_REPORTS (model_id @ ''_loss.png'')),
      ModelSave (path_join DIR_REPORTS (model_id @ ''_model.keras''))]"
  note a1 = entrenar_events[of e df target_col predictors numeric_features
               categorical_features model_id DIR_REPORTS 50 256]
  show ?thesis
  proof (cases "snd ?r1")
    case (Inl ex)
    then have run: "ejecutar_modelo e df target_col predictors numeric_features
                         categorical_features model_id escenarios_dict = (fst ?r1, Inl ex)"
      by (simp add: ejecutar_modelo_def io_bind_def)
    from a1 have "prefix (fst ?r1) ?nine" by (rule conjunct1)
    then have "prefix (fst ?r1) (?nine @ [Transform, Predict,
        ToCsv (path_join DIR_REPORTS (model_id @ ''_predicciones_escenarios.csv''))
          \<lparr>df_columns = [], df_rows = []\<rparr>])"
      by (rule prefix_prefix)
    then show ?thesis unfolding run by (intro exI) simp
  next
    case (Inr info)
    let ?r2 = "predecir_escenarios e info predictors escenarios_dict model_id DIR_REPORTS"
    from Inr have run: "ejecutar_modelo e df target_col predictors numeric_features
                         categorical_features model_id escenarios_dict
                        = (fst ?r1 @ fst ?r2, snd ?r2)"
      by (simp add: ejecutar_modelo_def io_bind_def)
    from a1 Inr have n: "fst ?r1 = ?nine" by simp
    from predecir_events[of e info predictors escenarios_dict model_id DIR_REPORTS]
    obtain out where "prefix (fst ?r2) [Transform, Predict,
        ToCsv (path_join DIR_REPORTS (model_id @ ''_predicciones_escenarios.csv'')) out]"
      by blast
    then have "prefix (fst ?r1 @ fst ?r2) (?nine @ [Transform, Predict,
        ToCsv (path_join DIR_REPORTS (model_id @ ''_predicciones_escenarios.csv'')) out])"
      unfolding n by (simp only: same_prefix_prefix)
    then show ?thesis unfolding run by (intro exI[of _ out]) simp
  qed
qed

text \<open>
  Claim C9, as the script behaves. One model (training, then the scenarios) writes its four
  files one after the other: the accuracy curve, the loss curve, the model, the table of
  scenario predictions. An exception ends the run where it is raised and nothing is undone, so
  the files written are always a leading part of that sequence, and they are all four exactly
  when the run ends without an exception. The events of a run are a leading part of one fixed
  sequence in which the first file comes after the six calls of training, and a failure of the
  column check, of the split, of fitting or applying the preprocessor, of fitting the network
  or of its evaluation ends the run with the events up to that call, none of them a file.
\<close>

theorem artifacts_written_in_order:
  "prefix (artifacts (fst (ejecutar_modelo e df target_col predictors numeric_features
                             categorical_features model_id escenarios_dict)))
          [path_join DIR_REPORTS (model_id @ ''_accuracy.png''),
           path_join DIR_REPORTS (model_id @ ''_loss.png''),
           path_join DIR_REPORTS (model_id @ ''_model.keras''),
           path_join DIR_REPORTS (model_id @ ''_predicciones_escenarios.csv'')]
   \<and> (isl (snd (ejecutar_modelo e df target_col predictors numeric_features
                    categorical_features model_id escenarios_dict))
        \<longleftrightarrow> artifacts (fst (ejecutar_modelo e df target_col predictors numeric_features
                                  categorical_features model_id escenarios_dict))
            \<noteq> [path_join DIR_REPORTS (model_id @ ''_accuracy.png''),
               path_join DIR_REPORTS (model_id @ ''_loss.png''),
               path_join DIR_REPORTS (model_id @ ''_model.keras''),
               path_join DIR_REPORTS (model_id @ ''_predicciones_escenarios.csv'')])
   \<and> (\<exists>out. prefix (fst (ejecutar_modelo e df target_col predictors numeric_features
                          categorical_features model_id escenarios_dict))
        [Dropna, TrainTestSplit, FitTransform, Transform, ModelFit, ModelEvaluate,
         SaveFig (path_join DIR_REPORTS (model_id @ ''_accuracy.png'')),
         SaveFig (path_join DIR_REPORTS (model_id @ ''_loss.png'')),
         ModelSave (path_join DIR_REPORTS (model_id @ ''_model.keras'')),
         Transform, Predict,
         ToCsv (path_join DIR_REPORTS (model_id @ ''_predicciones_escenarios.csv'')) out])
   \<and> (faltantes df target_col predictors \<noteq> [] \<longrightarrow>
      (\<exists>ex. ejecutar_modelo e df target_col predictors numeric_features categorical_features model_id escenarios_dict = ([], Inl ex)))
   \<and> (faltantes df target_col predictors = [] \<longrightarrow>
      (\<forall>ex. train_test_split e (project (data_sub df target_col predictors) predictors)
                (codes_of (y_cat df target_col predictors)) = Inl ex \<longrightarrow>
            ejecutar_modelo e df target_col predictors numeric_features categorical_features model_id escenarios_dict
            = ([Dropna, TrainTestSplit], Inl ex))
      \<and> (\<forall>X_train X_test y_train y_test.
            train_test_split e (project (data_sub df target_col predictors) predictors)
              (codes_of (y_cat df target_col predictors))
            = Inr (X_train, X_test, y_train, y_test) \<longrightarrow>
            (\<forall>ex. fit_transform (construir_preprocesador numeric_features categorical_features)
                     X_train = Inl ex \<longrightarrow>
                  ejecutar_modelo e df target_col predictors numeric_features categorical_features model_id escenarios_dict
                  = ([Dropna, TrainTestSplit, FitTransform], Inl ex))
            \<and> (\<forall>preprocessor X_train_proc.
                  fit_transform (construir_preprocesador numeric_features categorical_features)
                    X_train = Inr (preprocessor, X_train_proc) \<longrightarrow>
                  (\<forall>ex. transform preprocessor X_test = Inl ex \<longrightarrow>
                        ejecutar_modelo e df target_col predictors numeric_features categorical_features model_id escenarios_dict
                        = ([Dropna, TrainTestSplit, FitTransform, Transform], Inl ex))
                  \<and> (\<forall>X_test_proc.
                        transform preprocessor X_test = Inr X_test_proc \<longrightarrow>
                        (\<forall>ex. env_model_fit e
                                 (construir_modelo_clasificacion (output_width preprocessor)
                                    (length (remdups y_train)) model_id)
                                 X_train_proc y_train 50 256 = Inl ex \<longrightarrow>
                              ejecutar_modelo e df target_col predictors numeric_features categorical_features model_id escenarios_dict
                              = ([Dropna, TrainTestSplit, FitTransform, Transform, ModelFit],
                                 Inl ex))
                        \<and> (\<forall>forward ex.
                              env_model_fit e
                                (construir_modelo_clasificacion (output_width preprocessor)
                                   (length (remdups y_train)) model_id)
                                X_train_proc y_train 50 256 = Inr forward \<longrightarrow>
                              env_model_evaluate e
                                \<lparr>tm_architecture =
                                   construir_modelo_clasificacion (output_width preprocessor)
                                     (length (remdups y_train)) model_id,
                                 tm_forward = forward\<rparr> X_test_proc y_test = Inl ex \<longrightarrow>
                              ejecutar_modelo e df target_col predictors numeric_features categorical_features model_id escenarios_dict
                              = ([Dropna, TrainTestSplit, FitTransform, Transform, ModelFit,
                                  ModelEvaluate], Inl ex))))))"
proof -
  have stages: "(faltantes df target_col predictors \<noteq> [] \<longrightarrow>
      (\<exists>ex. ejecutar_modelo e df target_col predictors numeric_features categorical_features model_id escenarios_dict = ([], Inl ex)))
   \<and> (faltantes df target_col predictors = [] \<longrightarrow>
      (\<forall>ex. train_test_split e (project (data_sub df target_col predictors) predictors)
                (codes_of (y_cat df target_col predictors)) = Inl ex \<longrightarrow>
            ejecutar_modelo e df target_col predictors numeric_features categorical_features model_id escenarios_dict
            = ([Dropna, TrainTestSplit], Inl ex))
      \<and> (\<forall>X_train X_test y_train y_test.
            train_test_split e (project (data_sub df target_col predictors) predictors)
              (codes_of (y_cat df target_col predictors))
            = Inr (X_train, X_test, y_train, y_test) \<longrightarrow>
            (\<forall>ex. fit_transform (construir_preprocesador numeric_features categorical_features)
                     X_train = Inl ex \<longrightarrow>
                  ejecutar_modelo e df target_col predictors numeric_features categorical_features model_id escenarios_dict
                  = ([Dropna, TrainTestSplit, FitTransform], Inl ex))
            \<and> (\<forall>preprocessor X_train_proc.
                  fit_transform (construir_preprocesador numeric_features categorical_features)
                    X_train = Inr (preprocessor, X_train_proc) \<longrightarrow>
                  (\<forall>ex. transform preprocessor X_test = Inl ex \<longrightarrow>
                        ejecutar_modelo e df target_col predictors numeric_features categorical_features model_id escenarios_dict
                        = ([Dropna, TrainTestSplit, FitTransform, Transform], Inl ex))
                  \<and> (\<forall>X_test_proc.
                        transform preprocessor X_test = Inr X_test_proc \<longrightarrow>
                        (\<forall>ex. env_model_fit e
                                 (construir_modelo_clasificacion (output_width preprocessor)
                                    (length (remdups y_train)) model_id)
                                 X_train_proc y_train 50 256 = Inl ex \<longrightarrow>
                              ejecutar_modelo e df target_col predictors numeric_features categorical_features model_id escenarios_dict
                              = ([Dropna, TrainTestSplit, FitTransform, Transform, ModelFit],
                                 Inl ex))
                        \<and> (\<forall>forward ex.
                              env_model_fit e
                                (construir_modelo_clasificacion (output_width preprocessor)
                                   (length (remdups y_train)) model_id)
                                X_train_proc y_train 50 256 = Inr forward \<longrightarrow>
                              env_model_evaluate e
                                \<lparr>tm_architecture =
                                   construir_modelo_clasificacion (output_width preprocessor)
                                     (length (remdups y_train)) model_id,
                                 tm_forward = forward\<rparr> X_test_proc y_test = Inl ex \<longrightarrow>
                              ejecutar_modelo e df target_col predictors numeric_features categorical_features model_id escenarios_dict
                              = ([Dropna, TrainTestSplit, FitTransform, Transform, ModelFit,
                                  ModelEvaluate], Inl ex))))))"
    unfolding ejecutar_modelo_def entrenar_modelo_nn_def Let_def y_cat_def
    by (simp add: io_bind_call io_bind_write_file raise_or_def io_return_def io_bind_pair)
  note A = artifacts_prefix[of e df target_col predictors numeric_features
         categorical_features model_id escenarios_dict]
  note B = ejecutar_events[of e df target_col predictors numeric_features
         categorical_features model_id escenarios_dict]
  show ?thesis
    by (rule conjI[OF A[THEN conjunct1] conjI[OF A[THEN conjunct2] conjI[OF B stages]]])
qed

text \<open>The example run up to the end of training: the two curves and the model are saved.\<close>

lemma example_training:
  "\<exists>info. entrenar_modelo_nn env_example
            \<lparr>df_columns = [''nivel'', ''AREA''],
              df_rows = [[Str ''bajo'', Str ''rural''], [Str ''alto'', Str ''urbana''],
                         [Str ''bajo'', Str ''urbana''], [Str ''alto'', Str ''rural'']]\<rparr>
            ''nivel'' [''AREA''] [] [''AREA''] ''nn1'' DIR_REPORTS 50 256
          = ([Dropna, TrainTestSplit, FitTransform, Transform, ModelFit, ModelEvaluate,
              SaveFig ''reports/redes_neuronales/nn1_accuracy.png'',
              SaveFig ''reports/redes_neuronales/nn1_loss.png'',
              ModelSave ''reports/redes_neuronales/nn1_model.keras''], Inr info)
          \<and> im_preprocessor info
              = [(''AREA'', OneHot Unknown_ignore [Str ''rural'', Str ''urbana''])]
          \<and> output_units (tm_architecture (im_model info)) = 1"
proof -
  let ?df = "\<lparr>df_columns = [''nivel'', ''AREA''],
       df_rows = [[Str ''bajo'', Str ''rural''], [Str ''alto'', Str ''urbana''],
                  [Str ''bajo'', Str ''urbana''], [Str ''alto'', Str ''rural'']]\<rparr>"
  have f: "faltantes ?df ''nivel'' [''AREA''] = []"
    by (simp add: faltantes_def cols_necesarias_def)
  have d: "data_sub ?df ''nivel'' [''AREA''] = ?df"
    by (simp add: data_sub_def dropna_def project_def cols_necesarias_def cell_at_def)
  have y: "column_values ?df ''nivel'' = [Str ''bajo'', Str ''alto'', Str ''bajo'', Str ''alto'']"
    by (simp add: column_values_def cell_at_def)
  have k: "codes_of [Str ''bajo'', Str ''alto'', Str ''bajo'', Str ''alto''] = [1, 0, 1, 0]"
    by (simp add: codes_of_def categories_def sorted_unique_def cat_code_def)
  have X: "project ?df [''AREA'']
           = \<lparr>df_columns = [''AREA''],
               df_rows = [[Str ''rural''], [Str ''urbana''], [Str ''urbana''], [Str ''rural'']]\<rparr>"
    by (simp add: project_def cell_at_def)
  have s: "train_test_split env_example
             \<lparr>df_columns = [''AREA''],
               df_rows = [[Str ''rural''], [Str ''urbana''], [Str ''urbana''], [Str ''rural'']]\<rparr>
             [1, 0, 1, 0]
           = Inr (\<lparr>df_columns = [''AREA''], df_rows = [[Str ''rural''], [Str ''urbana'']]\<rparr>,
                  \<lparr>df_columns = [''AREA''], df_rows = [[Str ''urbana''], [Str ''rural'']]\<rparr>,
                  [1, 0], [1, 0])"
    by (simp add: train_test_split_def env_example_def iloc_def upt_rec Let_def)
  have ft: "fit_transform (construir_preprocesador [] [''AREA''])
              \<lparr>df_columns = [''AREA''], df_rows = [[Str ''rural''], [Str ''urbana'']]\<rparr>
            = Inr ([(''AREA'', OneHot Unknown_ignore [Str ''rural'', Str ''urbana''])],
                   [[Float 1, Float 0], [Float 0, Float 1]])"
    by (simp add: fit_transform_def fit_def transform_def feature_columns_def
        construir_preprocesador_def column_values_def cell_at_def is_text_def is_number_def
        sorted_unique_def hstack_def numeric_dtype_def is_text_def)
  have t: "transform [(''AREA'', OneHot Unknown_ignore [Str ''rural'', Str ''urbana''])]
              \<lparr>df_columns = [''AREA''], df_rows = [[Str ''urbana''], [Str ''rural'']]\<rparr>
            = Inr [[Float 0, Float 1], [Float 1, Float 0]]"
    by (simp add: transform_def column_values_def cell_at_def hstack_def numeric_dtype_def is_text_def)
  have w: "env_write env_example = (\<lambda>p. None)"
    and mf: "env_model_fit env_example = (\<lambda>m X y epochs batch_size. Inr (\<lambda>x j. Float (1 / 2)))"
    and me: "env_model_evaluate env_example = (\<lambda>m X y. Inr (Float 0, Float 1))"
    by (simp_all add: env_example_def)
  show ?thesis
    unfolding entrenar_modelo_nn_def
    by (simp add: Let_def f d y k X s ft t w mf me io_bind_call io_bind_write_file
        io_return_def DIR_REPORTS_def path_join_def construir_modelo_clasificacion_def
        output_units_def)
qed

text \<open>
  A run that leaves three of the four files: training succeeds and saves the two curves and
  the model, then the scenario table cannot be assembled (here from an empty dict of
  scenarios, for which line 316 raises \<^verbatim>\<open>KeyError\<close>), and the table of predictions is never
  written.
\<close>

theorem artifacts_written_in_order_counterexample:
  "ejecutar_modelo env_example
     \<lparr>df_columns = [''nivel'', ''AREA''],
       df_rows = [[Str ''bajo'', Str ''rural''], [Str ''alto'', Str ''urbana''],
                  [Str ''bajo'', Str ''urbana''], [Str ''alto'', Str ''rural'']]\<rparr>
     ''nivel'' [''AREA''] [] [''AREA''] ''nn1'' []
   = ([Dropna, TrainTestSplit, FitTransform, Transform, ModelFit, ModelEvaluate,
       SaveFig ''reports/redes_neuronales/nn1_accuracy.png'',
       SaveFig ''reports/redes_neuronales/nn1_loss.png'',
       ModelSave ''reports/redes_neuronales/nn1_model.keras''],
      Inl (KeyError ''not in index''))"
proof -
  from example_training obtain info where e1: "entrenar_modelo_nn env_example
            \<lparr>df_columns = [''nivel'', ''AREA''],
              df_rows = [[Str ''bajo'', Str ''rural''], [Str ''alto'', Str ''urbana''],
                         [Str ''bajo'', Str ''urbana''], [Str ''alto'', Str ''rural'']]\<rparr>
            ''nivel'' [''AREA''] [] [''AREA''] ''nn1'' DIR_REPORTS 50 256
          = ([Dropna, TrainTestSplit, FitTransform, Transform, ModelFit, ModelEvaluate,
              SaveFig ''reports/redes_neuronales/nn1_accuracy.png'',
              SaveFig ''reports/redes_neuronales/nn1_loss.png'',
              ModelSave ''reports/redes_neuronales/nn1_model.keras''], Inr info)" by blast
  have c: "construir_df_escenarios [''AREA''] [] = Inl (KeyError ''not in index'')"
    by (simp add: construir_df_escenarios_def DataFrame_def getitem_cols_def first_seen_def)
  have e2: "predecir_escenarios env_example info [''AREA''] [] ''nn1'' DIR_REPORTS
            = ([], Inl (KeyError ''not in index''))"
    unfolding predecir_escenarios_def by (simp add: c io_bind_raise_or)
  show ?thesis
    unfolding ejecutar_modelo_def e1 by (simp add: io_bind_def e2)
qed

text \<open>
  The same training followed by one scenario: the run completes and all four files exist.
  Three runs that end before the first file: a dataset without the target column; a class
  with a single row, which the split refuses; a network whose fitting fails.
\<close>

theorem artifacts_written_in_order_witness:
  "artifacts (fst (ejecutar_modelo env_example
     \<lparr>df_columns = [''nivel'', ''AREA''],
       df_rows = [[Str ''bajo'', Str ''rural''], [Str ''alto'', Str ''urbana''],
                  [Str ''bajo'', Str ''urbana''], [Str ''alto'', Str ''rural'']]\<rparr>
     ''nivel'' [''AREA''] [] [''AREA''] ''nn1'' [(''esc_1'', [(''AREA'', Str ''rural'')])]))
   = [''reports/redes_neuronales/nn1_accuracy.png'',
      ''reports/redes_neuronales/nn1_loss.png'',
      ''reports/redes_neuronales/nn1_model.keras'',
      ''reports/redes_neuronales/nn1_predicciones_escenarios.csv'']
   \<and> \<not> isl (snd (ejecutar_modelo env_example
     \<lparr>df_columns = [''nivel'', ''AREA''],
       df_rows = [[Str ''bajo'', Str ''rural''], [Str ''alto'', Str ''urbana''],
                  [Str ''bajo'', Str ''urbana''], [Str ''alto'', Str ''rural'']]\<rparr>
     ''nivel'' [''AREA''] [] [''AREA''] ''nn1'' [(''esc_1'', [(''AREA'', Str ''rural'')])]))
   \<and> (\<exists>ex. ejecutar_modelo env_example
      \<lparr>df_columns = [''AREA''], df_rows = [[Str ''rural'']]\<rparr>
      ''nivel'' [''AREA''] [] [''AREA''] ''nn1'' [(''esc_1'', [(''AREA'', Str ''rural'')])]
      = ([], Inl ex))
   \<and> ejecutar_modelo env_example
      \<lparr>df_columns = [''nivel'', ''AREA''],
        df_rows = [[Str ''bajo'', Str ''rural''], [Str ''bajo'', Str ''urbana''],
                   [Str ''alto'', Str ''urbana'']]\<rparr>
      ''nivel'' [''AREA''] [] [''AREA''] ''nn1'' [(''esc_1'', [(''AREA'', Str ''rural'')])]
      = ([Dropna, TrainTestSplit],
         Inl (ValueError ''The least populated class in y has too few members''))
   \<and> ejecutar_modelo
      (env_example\<lparr>env_model_fit := \<lambda>m X y epochs batch_size. Inl (ValueError ''fit'')\<rparr>)
      \<lparr>df_columns = [''nivel'', ''AREA''],
       df_rows = [[Str ''bajo'', Str ''rural''], [Str ''alto'', Str ''urbana''],
                  [Str ''bajo'', Str ''urbana''], [Str ''alto'', Str ''rural'']]\<rparr>
      ''nivel'' [''AREA''] [] [''AREA''] ''nn1'' [(''esc_1'', [(''AREA'', Str ''rural'')])]
      = ([Dropna, TrainTestSplit, FitTransform, Transform, ModelFit], Inl (ValueError ''fit''))"
proof -
  let ?df = "\<lparr>df_columns = [''nivel'', ''AREA''],
       df_rows = [[Str ''bajo'', Str ''rural''], [Str ''alto'', Str ''urbana''],
                  [Str ''bajo'', Str ''urbana''], [Str ''alto'', Str ''rural'']]\<rparr>"
  let ?esc = "[(''esc_1'', [(''AREA'', Str ''rural'')])]"
  let ?run = "ejecutar_modelo env_example ?df ''nivel'' [''AREA''] [] [''AREA''] ''nn1'' ?esc"
  have w: "env_write env_example = (\<lambda>p. None)" by (simp add: env_example_def)
  from example_training obtain info where e1: "entrenar_modelo_nn env_example ?df ''nivel''
                  [''AREA''] [] [''AREA''] ''nn1'' DIR_REPORTS 50 256
          = ([Dropna, TrainTestSplit, FitTransform, Transform, ModelFit, ModelEvaluate,
              SaveFig ''reports/redes_neuronales/nn1_accuracy.png'',
              SaveFig ''reports/redes_neuronales/nn1_loss.png'',
              ModelSave ''reports/redes_neuronales/nn1_model.keras''], Inr info)"
    and pp: "im_preprocessor info
              = [(''AREA'', OneHot Unknown_ignore [Str ''rural'', Str ''urbana''])]"
    and ou: "output_units (tm_architecture (im_model info)) = 1" by blast
  have c: "construir_df_escenarios [''AREA''] ?esc
           = Inr \<lparr>df_columns = [''escenario'', ''AREA''],
                  df_rows = [[Str ''esc_1'', Str ''rural'']]\<rparr>"
    using construir_df_escenarios_rows[of ?esc "[''AREA'']"] by (simp add: dict_get_def)
  have x: "transform [(''AREA'', OneHot Unknown_ignore [Str ''rural'', Str ''urbana''])]
             (drop_column \<lparr>df_columns = [''escenario'', ''AREA''],
                            df_rows = [[Str ''esc_1'', Str ''rural'']]\<rparr> ''escenario'')
           = Inr [[Float 1, Float 0]]"
    by (simp add: transform_def drop_column_def column_values_def cell_at_def hstack_def numeric_dtype_def is_text_def)
  have a2: "\<not> isl (snd (predecir_escenarios env_example info [''AREA''] ?esc ''nn1'' DIR_REPORTS))"
    unfolding predecir_escenarios_def
    by (simp add: c x pp ou w Let_def io_bind_call io_bind_raise_or write_file_def
        tabla_predicciones_def)
  have "\<not> isl (snd ?run)"
    unfolding ejecutar_modelo_def e1 using a2 by (simp add: io_bind_def)
  with artifacts_written_in_order [of env_example ?df "''nivel''" "[''AREA'']" "[]" "[''AREA'']"
      "''nn1''" ?esc, THEN conjunct2, THEN conjunct1]
  have c0: "artifacts (fst ?run)
       = [''reports/redes_neuronales/nn1_accuracy.png'',
          ''reports/redes_neuronales/nn1_loss.png'',
          ''reports/redes_neuronales/nn1_model.keras'',
          ''reports/redes_neuronales/nn1_predicciones_escenarios.csv'']
      \<and> \<not> isl (snd ?run)"
    by (simp add: DIR_REPORTS_def path_join_def)
  let ?dm = "\<lparr>df_columns = [''AREA''], df_rows = [[Str ''rural'']]\<rparr>"
  let ?ds = "\<lparr>df_columns = [''nivel'', ''AREA''],
        df_rows = [[Str ''bajo'', Str ''rural''], [Str ''bajo'', Str ''urbana''],
                   [Str ''alto'', Str ''urbana'']]\<rparr>"
  let ?env = "env_example\<lparr>env_model_fit := \<lambda>m X y epochs batch_size. Inl (ValueError ''fit'')\<rparr>"
  have fm: "faltantes ?dm ''nivel'' [''AREA''] \<noteq> []"
    by (simp add: faltantes_def cols_necesarias_def)
  note m = artifacts_written_in_order [of env_example ?dm "''nivel''" "[''AREA'']" "[]"
      "[''AREA'']" "''nn1''" ?esc, THEN conjunct2, THEN conjunct2, THEN conjunct2,
      THEN conjunct1, THEN mp, OF fm]
  have fs: "faltantes ?ds ''nivel'' [''AREA''] = []"
    by (simp add: faltantes_def cols_necesarias_def)
  have ss: "train_test_split env_example
          (project (data_sub ?ds ''nivel'' [''AREA'']) [''AREA''])
          (codes_of (y_cat ?ds ''nivel'' [''AREA'']))
        = Inl (ValueError ''The least populated class in y has too few members'')"
    by (simp add: train_test_split_def Let_def y_cat_def data_sub_def dropna_def project_def
        column_values_def cols_necesarias_def cell_at_def codes_of_def categories_def
        sorted_unique_def cat_code_def)
  note s = artifacts_written_in_order [of env_example ?ds "''nivel''" "[''AREA'']" "[]"
      "[''AREA'']" "''nn1''" ?esc, THEN conjunct2, THEN conjunct2, THEN conjunct2,
      THEN conjunct2, THEN mp, OF fs, THEN conjunct1, THEN spec, THEN mp, OF ss]
  have f: "faltantes ?df ''nivel'' [''AREA''] = []"
    by (simp add: faltantes_def cols_necesarias_def)
  have sp: "train_test_split ?env
             (project (data_sub ?df ''nivel'' [''AREA'']) [''AREA''])
             (codes_of (y_cat ?df ''nivel'' [''AREA'']))
           = Inr (\<lparr>df_columns = [''AREA''], df_rows = [[Str ''rural''], [Str ''urbana'']]\<rparr>,
                  \<lparr>df_columns = [''AREA''], df_rows = [[Str ''urbana''], [Str ''rural'']]\<rparr>,
                  [1, 0], [1, 0])"
    by (simp add: train_test_split_def env_example_def iloc_def upt_rec Let_def y_cat_def
        data_sub_def dropna_def project_def column_values_def cols_necesarias_def cell_at_def
        codes_of_def categories_def sorted_unique_def cat_code_def)
  have ft: "fit_transform (construir_preprocesador [] [''AREA''])
              \<lparr>df_columns = [''AREA''], df_rows = [[Str ''rural''], [Str ''urbana'']]\<rparr>
            = Inr ([(''AREA'', OneHot Unknown_ignore [Str ''rural'', Str ''urbana''])],
                   [[Float 1, Float 0], [Float 0, Float 1]])"
    by (simp add: fit_transform_def fit_def transform_def feature_columns_def
        construir_preprocesador_def column_values_def cell_at_def is_text_def is_number_def
        sorted_unique_def hstack_def numeric_dtype_def is_text_def)
  have t: "transform [(''AREA'', OneHot Unknown_ignore [Str ''rural'', Str ''urbana''])]
              \<lparr>df_columns = [''AREA''], df_rows = [[Str ''urbana''], [Str ''rural'']]\<rparr>
            = Inr [[Float 0, Float 1], [Float 1, Float 0]]"
    by (simp add: transform_def column_values_def cell_at_def hstack_def numeric_dtype_def
        is_text_def)
  have mf: "env_model_fit ?env
              (construir_modelo_clasificacion
                 (output_width [(''AREA'', OneHot Unknown_ignore [Str ''rural'', Str ''urbana''])])
                 (length (remdups [1, 0 :: int])) ''nn1'')
              [[Float 1, Float 0], [Float 0, Float 1]] [1, 0] 50 256
            = Inl (ValueError ''fit'')"
    by simp
  note n = artifacts_written_in_order [of ?env ?df "''nivel''" "[''AREA'']" "[]"
      "[''AREA'']" "''nn1''" ?esc, THEN conjunct2, THEN conjunct2, THEN conjunct2,
      THEN conjunct2, THEN mp, OF f, THEN conjunct2, THEN spec, THEN spec, THEN spec, THEN spec,
      THEN mp, OF sp, THEN conjunct2, THEN spec, THEN spec, THEN mp, OF ft,
      THEN conjunct2, THEN spec, THEN mp, OF t, THEN conjunct1, THEN spec, THEN mp, OF mf]
  show ?thesis
    by (rule conjI[OF c0[THEN conjunct1] conjI[OF c0[THEN conjunct2] conjI[OF m conjI[OF s n]]]])
qed

subsection \<open>The label mapping of a trained model\<close>

lemma entrenar_result:
  assumes "snd (entrenar_modelo_nn e df target_col predictors numeric_features
                  categorical_features model_id dir_reports epochs batch_size) = Inr info"
  shows "faltantes df target_col predictors = []
       \<and> im_class_mapping info = class_mapping_of (y_cat df target_col predictors)
       \<and> train_test_split e (project (data_sub df target_col predictors) predictors)
            (codes_of (y_cat df target_col predictors))
          = Inr (im_X_train info, im_X_test info, im_y_train info, im_y_test info)"
  using assms unfolding entrenar_modelo_nn_def Let_def y_cat_def
  by (auto simp: io_bind_call io_bind_write_file raise_or_def io_return_def
      split: if_splits sum.splits option.splits prod.splits)


text \<open>
  Claim C3. When training returns, the label mapping it returns is the enumeration of the
  categories of the target column of the filtered data, and the codes it has handed to the
  split are the positions of the target values among those categories. Hence for every
  observed target value the returned mapping holds that value under its code, decoding the
  codes of the rows gives back the target column, and the keys of the mapping, like the codes
  of the rows, are exactly \<open>0, \<dots>, K - 1\<close>, where \<open>K\<close> is the number of distinct observed
  values.
\<close>

theorem trained_label_round_trip:
  assumes "snd (entrenar_modelo_nn e df target_col predictors numeric_features
                  categorical_features model_id dir_reports epochs batch_size) = Inr info"
  shows "im_class_mapping info = enumerate 0 (categories (y_cat df target_col predictors))
   \<and> train_test_split e (project (data_sub df target_col predictors) predictors)
        (map (cat_code (categories (y_cat df target_col predictors)))
             (y_cat df target_col predictors))
      = Inr (im_X_train info, im_X_test info, im_y_train info, im_y_test info)
   \<and> (\<forall>v \<in> set (y_cat df target_col predictors).
        \<exists>k. cat_code (categories (y_cat df target_col predictors)) v = int k
          \<and> decode_label (im_class_mapping info) k = v)
   \<and> map (\<lambda>c. decode_label (im_class_mapping info) (nat c))
         (map (cat_code (categories (y_cat df target_col predictors)))
              (y_cat df target_col predictors))
       = y_cat df target_col predictors
   \<and> map fst (im_class_mapping info) = [0..<card (set (y_cat df target_col predictors))]
   \<and> set (map (cat_code (categories (y_cat df target_col predictors)))
             (y_cat df target_col predictors))
       = int ` {0..<card (set (y_cat df target_col predictors))}"
proof -
  note r = entrenar_result[OF assms]
  from r have cm: "im_class_mapping info = class_mapping_of (y_cat df target_col predictors)"
    by blast
  from r have sp: "train_test_split e (project (data_sub df target_col predictors) predictors)
        (codes_of (y_cat df target_col predictors))
      = Inr (im_X_train info, im_X_test info, im_y_train info, im_y_test info)" by blast
  note l = label_values_round_trip[of df target_col predictors]
  show ?thesis
    unfolding cm using sp l
    by (simp add: class_mapping_of_def[symmetric] codes_of_def[symmetric])
qed


text \<open>The example training: four rows, two target values.\<close>

theorem trained_label_round_trip_witness:
  "\<exists>info.
     snd (entrenar_modelo_nn env_example
            \<lparr>df_columns = [''nivel'', ''AREA''],
              df_rows = [[Str ''bajo'', Str ''rural''], [Str ''alto'', Str ''urbana''],
                         [Str ''bajo'', Str ''urbana''], [Str ''alto'', Str ''rural'']]\<rparr>
            ''nivel'' [''AREA''] [] [''AREA''] ''nn1'' DIR_REPORTS 50 256) = Inr info
   \<and> im_class_mapping info = [(0, Str ''alto''), (1, Str ''bajo'')]
   \<and> map (\<lambda>c. decode_label (im_class_mapping info) (nat c)) [1, 0, 1, 0]
       = [Str ''bajo'', Str ''alto'', Str ''bajo'', Str ''alto'']
   \<and> map fst (im_class_mapping info) = [0..<2]"
proof -
  let ?df = "\<lparr>df_columns = [''nivel'', ''AREA''],
              df_rows = [[Str ''bajo'', Str ''rural''], [Str ''alto'', Str ''urbana''],
                         [Str ''bajo'', Str ''urbana''], [Str ''alto'', Str ''rural'']]\<rparr>"
  from example_training obtain info where
    e: "snd (entrenar_modelo_nn env_example ?df ''nivel'' [''AREA''] [] [''AREA''] ''nn1''
              DIR_REPORTS 50 256) = Inr info"
    by force
  have y: "y_cat ?df ''nivel'' [''AREA''] = [Str ''bajo'', Str ''alto'', Str ''bajo'', Str ''alto'']"
    by (simp add: y_cat_def data_sub_def dropna_def project_def column_values_def
        cols_necesarias_def cell_at_def)
  have c: "categories [Str ''bajo'', Str ''alto'', Str ''bajo'', Str ''alto'']
           = [Str ''alto'', Str ''bajo'']"
    by (simp add: categories_def sorted_unique_def)
  have k: "map (cat_code [Str ''alto'', Str ''bajo''])
             [Str ''bajo'', Str ''alto'', Str ''bajo'', Str ''alto''] = [1, 0, 1, 0]"
    by (simp add: cat_code_def)
  have n: "card (set [Str ''bajo'', Str ''alto'', Str ''bajo'', Str ''alto'']) = 2"
    by (simp add: card_insert_if)
  note t = trained_label_round_trip[OF e]
  have m: "im_class_mapping info = [(0, Str ''alto''), (1, Str ''bajo'')]"
    using t[THEN conjunct1] unfolding y c by simp
  have d: "map (\<lambda>c. decode_label (im_class_mapping info) (nat c)) [1, 0, 1, 0]
       = [Str ''bajo'', Str ''alto'', Str ''bajo'', Str ''alto'']"
    using t[THEN conjunct2, THEN conjunct2, THEN conjunct2, THEN conjunct1]
    unfolding y c k .
  have f: "map fst (im_class_mapping info) = [0..<2]"
    using t[THEN conjunct2, THEN conjunct2, THEN conjunct2, THEN conjunct2, THEN conjunct1]
    unfolding y n .
  from e m d f show ?thesis by (intro exI[of _ info] conjI)
qed

end
